theory Spec2Isabelle
  imports Main
begin

section \<open>Data model\<close>

text \<open>
  Objects of the store are identified by their object id. A user is a \<open>Parse.User\<close>;
  \<open>a.equals(b)\<close> on two users compares their ids, so a user is modelled by its id.
  Quantities and amounts are integers; a date is a point on a discrete clock.
\<close>

type_synonym object_id = nat
type_synonym user = object_id
type_synonym timestamp = nat

datatype container_status = RECOVERED | TRANSFER_PENDING | TRANSFERRED | IN_TRANSIT

datatype transaction_type =
  RECOVER | TRANSFER_REQUEST | TRANSFER_ACCEPT | TRANSFER_REJECT | TRANSFER_CANCEL | TRANSPORT

text \<open>
  Every failure of the source is an \<open>Error\<close> with a message; one constructor stands for
  each message the source builds. \<open>DetailNotSaved\<close> and \<open>CouldNotBeRegistered\<close> are the
  two wrappers (\<open>Transaction Detail could not be saved. ...\<close> and
  \<open>Transaction could not be registered. Detail: ...\<close>) around the message of the cause.
\<close>

datatype error =
    DuplicatedWasteType object_id
  | MaxQuantityExceeded int
  | TransactionNotFound object_id
  | NotTransferRequest object_id
  | Expired object_id timestamp
  | NotAllowedAcceptReject
  | NotAllowedCancel
  | MissingRecipient
  | MissingDestination
  | ContainersNotRecovered
  | ContainersNotTransportable
  | NotFound string object_id
  | TransportDenied object_id
  | SaveRejected
  | TypeError string
  | INVALID_SESSION_TOKEN string
  | DetailNotSaved error
  | CouldNotBeRegistered error

text \<open>
  The failures that report an unmet precondition of the request (duplicate waste type,
  quantity over the limit, wrong transaction type or state, wrong requester, missing
  recipient or destination, container not in the required status).
\<close>

fun validation_error :: "error \<Rightarrow> bool" where
  "validation_error (DuplicatedWasteType _) = True"
| "validation_error (MaxQuantityExceeded _) = True"
| "validation_error (NotTransferRequest _) = True"
| "validation_error (Expired _ _) = True"
| "validation_error NotAllowedAcceptReject = True"
| "validation_error NotAllowedCancel = True"
| "validation_error MissingRecipient = True"
| "validation_error MissingDestination = True"
| "validation_error ContainersNotRecovered = True"
| "validation_error ContainersNotTransportable = True"
| "validation_error _ = False"

section \<open>The \<open>secure\<close> decorator\<close>

text \<open>
  A cloud function request carries the master flag, the authenticated user (absent when
  the caller has no session) and the parameters. A cloud function may do anything to the
  state \<open>'s\<close> it runs in and either returns a value or throws.
\<close>

record 'p function_request =
  master :: bool
  req_user :: "user option"
  params :: 'p

type_synonym ('p, 's, 'r) cloud_function = "'p function_request \<Rightarrow> 's \<Rightarrow> (error + 'r) \<times> 's"

definition secure :: "('p, 's, 'r) cloud_function \<Rightarrow> ('p, 's, 'r) cloud_function" where
  "secure callback = (\<lambda>request s.
     let isMaster = master request; user = req_user request
     in if \<not> isMaster \<and> user = None
        then (Inl (INVALID_SESSION_TOKEN ''User needs to be authenticated''), s)
        else callback request s)"

section \<open>Validation of a recover request\<close>

text \<open>One line of a recover request: a waste type and how many containers of it.\<close>

record register_item =
  typeId :: object_id
  qty :: int

text \<open>
  The body of the \<open>forEach\<close> of \<open>validateRegisterInput\<close>, run over the items in order
  with the \<open>Map\<close> of the waste types seen so far; a \<open>throw\<close> ends the loop.
\<close>

fun validateRegisterInput_forEach ::
  "int \<Rightarrow> (object_id \<rightharpoonup> object_id) \<Rightarrow> register_item list \<Rightarrow> error + unit" where
  "validateRegisterInput_forEach maxQty typesMap [] = Inr ()"
| "validateRegisterInput_forEach maxQty typesMap (item # items) =
     (if typesMap (typeId item) \<noteq> None then Inl (DuplicatedWasteType (typeId item))
      else let typesMap' = typesMap(typeId item \<mapsto> typeId item)
           in if qty item > maxQty then Inl (MaxQuantityExceeded maxQty)
              else validateRegisterInput_forEach maxQty typesMap' items)"

text \<open>
  \<open>MAX_CONTAINERS_QUANTITY_PER_REQUEST\<close> comes from the constants module, whose source
  is not available: it is the first argument.
\<close>

definition validateRegisterInput :: "int \<Rightarrow> register_item list \<Rightarrow> error + unit" where
  "validateRegisterInput MAX_CONTAINERS_QUANTITY_PER_REQUEST containers =
     validateRegisterInput_forEach MAX_CONTAINERS_QUANTITY_PER_REQUEST Map.empty containers"

section \<open>Objects and the store\<close>

text \<open>
  A Parse object is an id and its attributes. The attributes of the three classes the
  workflows handle are records; an attribute that may be \<open>undefined\<close> or \<open>null\<close> is an
  option. A container holds its waste type (\<open>container.get('type')\<close>).
\<close>

record waste_type =
  wt_qty :: int
  wt_unit :: string

type_synonym waste_type_obj = "object_id \<times> waste_type"

record container =
  c_type :: waste_type_obj
  c_status :: container_status
  c_createdBy :: user
  c_batchNumber :: nat

record detail =
  d_transaction :: object_id
  d_qty :: int
  d_unit :: string
  d_container :: object_id

record transaction =
  tx_type :: "transaction_type option"
  tx_from :: "user option"
  tx_to :: "user option"
  tx_number :: nat
  tx_recyclingCenter :: "object_id option"
  tx_reason :: "string option"
  tx_relatedTo :: "object_id option"
  tx_expiredAt :: "timestamp option"
  tx_details :: "detail list"

type_synonym container_obj = "object_id \<times> container"
type_synonym transaction_obj = "object_id \<times> transaction"

datatype notification =
    TransferRequestNotice object_id user user
  | TransportNotice object_id user "user list"

text \<open>
  The state the workflows act on: the three classes, the stock counters per user and
  waste type, the permission grants (class name, object id, user), the notifications
  handed to the notifier, the sequences and the next object id the store hands out.
\<close>

record store =
  transactions :: "object_id \<rightharpoonup> transaction"
  container_registry :: "object_id \<rightharpoonup> container"
  details :: "detail list"
  stock :: "user \<times> object_id \<rightharpoonup> int"
  grants :: "(string \<times> object_id \<times> user) set"
  notifications :: "notification list"
  sequences :: "string \<Rightarrow> nat"
  next_id :: object_id

text \<open>
  What a workflow invocation gets from outside the transaction service: the constant of
  the constants module, the clock (\<open>new Date()\<close>), the users, recycling centers and waste
  types that exist, the answer of the transport authorization, and whether the store
  accepts the save of a new Transaction (made with the session argument it is given) or
  of a new TransactionDetail. Access control is outside the model: a \<open>get\<close> finds every
  stored object, and the writes made with the master key are accepted.
\<close>

datatype session_arg = SessionToken user | UserObject user | Undefined

record env =
  MAX_CONTAINERS_QUANTITY_PER_REQUEST :: int
  now :: timestamp
  user_exists :: "user \<Rightarrow> bool"
  recycling_center_exists :: "object_id \<Rightarrow> bool"
  waste_types :: "object_id \<rightharpoonup> waste_type"
  can_transport :: "container_obj \<Rightarrow> user \<Rightarrow> bool"
  accepts_transaction :: "session_arg \<Rightarrow> transaction \<Rightarrow> bool"
  accepts_detail :: "detail \<Rightarrow> bool"

subsection \<open>Joining the calls made over a list\<close>

text \<open>
  \<open>Promise.all(xs.map(f))\<close>: \<open>map\<close> calls \<open>f\<close> on every element, so every call is made
  and has its effect even when one of them fails; \<open>Promise.all\<close> then yields all the
  results, or a failure. The calls are taken in list order, and the failure reported is
  the first in that order.
\<close>

fun map_all :: "('a \<Rightarrow> 's \<Rightarrow> 'r \<times> 's) \<Rightarrow> 'a list \<Rightarrow> 's \<Rightarrow> 'r list \<times> 's" where
  "map_all f [] s = ([], s)"
| "map_all f (x # xs) s =
     (let (r, s1) = f x s; (rs, s2) = map_all f xs s1 in (r # rs, s2))"

fun promise_all :: "('e + 'b) list \<Rightarrow> 'e + 'b list" where
  "promise_all [] = Inr []"
| "promise_all (Inl e # rs) = Inl e"
| "promise_all (Inr v # rs) = (case promise_all rs of Inl e \<Rightarrow> Inl e | Inr vs \<Rightarrow> Inr (v # vs))"

text \<open>
  \<open>xs.map(f)\<close> where \<open>f\<close> itself throws (not a rejected promise: an exception in the
  callback): the exception leaves \<open>map\<close> at once, and the remaining elements are not
  visited.
\<close>

fun array_map :: "('a \<Rightarrow> 's \<Rightarrow> ('e + 'r) \<times> 's) \<Rightarrow> 'a list \<Rightarrow> 's \<Rightarrow> ('e + 'r list) \<times> 's" where
  "array_map f [] s = (Inr [], s)"
| "array_map f (x # xs) s =
     (case f x s of
        (Inl e, s1) \<Rightarrow> (Inl e, s1)
      | (Inr r, s1) \<Rightarrow>
          (case array_map f xs s1 of
             (Inl e, s2) \<Rightarrow> (Inl e, s2)
           | (Inr rs, s2) \<Rightarrow> (Inr (r # rs), s2)))"

subsection \<open>Writing to an object\<close>

text \<open>
  \<open>object.set(field, value)\<close> changes the object the workflow holds, not the store. The
  store receives the change with a save: the object's own \<open>save\<close>, or the save of a
  TransactionDetail that refers to the object, which saves the objects it refers to
  that hold unsaved changes before the detail itself.

  For the three attributes the workflows set:
  \<^item> \<open>status\<close> of a container: in every workflow the \<open>set\<close> is followed, for the same
    container, by the save of its detail or by the container's own save in the rollback;
    the model writes the status at the \<open>set\<close>.
  \<^item> \<open>relatedTo\<close> of the new Transaction and \<open>expiredAt\<close> of the request: set in memory
    only (\<open>set_relatedTo\<close>, \<open>set_expiredAt\<close>). They reach the store with the save of a
    detail of the new Transaction (\<open>createTransactionDetail_related\<close> below), or, for
    \<open>expiredAt\<close>, with the save of the request in a \<open>catch\<close> block. When the workflow
    saves no detail, they stay on the objects in memory.
  \<^item> \<open>details\<close>: set on the Transaction after the last save, so it is on the returned
    object only.
\<close>

definition save_container :: "container_obj \<Rightarrow> store \<Rightarrow> store" where
  "save_container c s = s\<lparr>container_registry := (container_registry s)(fst c \<mapsto> snd c)\<rparr>"

definition save_transaction :: "transaction_obj \<Rightarrow> store \<Rightarrow> store" where
  "save_transaction t s = s\<lparr>transactions := (transactions s)(fst t \<mapsto> snd t)\<rparr>"

definition set_status :: "container_obj \<Rightarrow> container_status \<Rightarrow> store \<Rightarrow> container_obj \<times> store" where
  "set_status c status s =
     (let c' = (fst c, (snd c)\<lparr>c_status := status\<rparr>) in (c', save_container c' s))"

definition set_relatedTo :: "transaction_obj \<Rightarrow> transaction_obj \<Rightarrow> transaction_obj" where
  "set_relatedTo t r = (fst t, (snd t)\<lparr>tx_relatedTo := Some (fst r)\<rparr>)"

definition set_expiredAt :: "transaction_obj \<Rightarrow> timestamp option \<Rightarrow> transaction_obj" where
  "set_expiredAt t d = (fst t, (snd t)\<lparr>tx_expiredAt := d\<rparr>)"

definition set_details :: "transaction_obj \<Rightarrow> detail list \<Rightarrow> transaction_obj" where
  "set_details t ds = (fst t, (snd t)\<lparr>tx_details := ds\<rparr>)"

section \<open>The collaborators\<close>

text \<open>
  The services the workflows call (\<open>utils/db\<close>, \<open>UserService\<close>, \<open>RecyclingCenterService\<close>,
  \<open>WasteTypeService\<close>, \<open>ContainerService\<close>, \<open>StockService\<close>, \<open>SecurityService\<close>,
  \<open>NotificationService\<close>) are modules whose source is not available. Each is modelled
  from its interface in the spec.
\<close>

text \<open>Modelled from the spec: \<open>nextSequenceNumber(entityName)\<close>, an integer, monotonic
  (\<open>getValueForNextSequence\<close> of \<open>utils/db\<close> is missing).\<close>

definition getValueForNextSequence :: "string \<Rightarrow> store \<Rightarrow> nat \<times> store" where
  "getValueForNextSequence name s =
     (let n = Suc (sequences s name) in (n, s\<lparr>sequences := (sequences s)(name := n)\<rparr>))"

text \<open>Modelled from the spec: the user lookup of \<open>UserService\<close> (missing); an absent
  user is a not-found failure.\<close>

definition findUserById :: "env \<Rightarrow> object_id \<Rightarrow> error + user" where
  "findUserById e i = (if user_exists e i then Inr i else Inl (NotFound ''User'' i))"

text \<open>Modelled from the spec: the recycling-center lookup of \<open>RecyclingCenterService\<close>
  (missing); an absent center is a not-found failure.\<close>

definition findRecyclingCenterById :: "env \<Rightarrow> object_id \<Rightarrow> error + object_id" where
  "findRecyclingCenterById e i =
     (if recycling_center_exists e i then Inr i else Inl (NotFound ''RecyclingCenter'' i))"

text \<open>Modelled from the spec: \<open>getWasteTypesFromIds\<close> of \<open>WasteTypeService\<close> (missing)
  resolves waste types by id, into a \<open>Map\<close> from id to waste type; an id that does not
  resolve is a not-found failure.\<close>

definition getWasteTypesFromIds :: "env \<Rightarrow> object_id list \<Rightarrow> error + (object_id \<rightharpoonup> waste_type_obj)" where
  "getWasteTypesFromIds e ids =
     (case find (\<lambda>i. waste_types e i = None) ids of
        Some i \<Rightarrow> Inl (NotFound ''WasteType'' i)
      | None \<Rightarrow> Inr (\<lambda>i. if i \<in> set ids then map_option (Pair i) (waste_types e i) else None))"

text \<open>Modelled from the spec: \<open>get(id, authScope)\<close> of the container registry
  (\<open>ContainerService.findContainerById\<close> is missing).\<close>

definition findContainerById :: "object_id \<Rightarrow> user \<Rightarrow> store \<Rightarrow> error + container_obj" where
  "findContainerById i user s =
     (case container_registry s i of None \<Rightarrow> Inl (NotFound ''Container'' i) | Some c \<Rightarrow> Inr (i, c))"

text \<open>Modelled from the spec: \<open>ContainerService.findContainersByTransaction\<close> (missing)
  loads all containers referenced by the details of the transaction.\<close>

definition findContainersByTransaction :: "transaction_obj \<Rightarrow> store \<Rightarrow> container_obj list" where
  "findContainersByTransaction t s =
     List.map_filter
       (\<lambda>d. if d_transaction d = fst t
            then (case container_registry s (d_container d) of
                    None \<Rightarrow> None | Some c \<Rightarrow> Some (d_container d, c))
            else None)
       (details s)"

text \<open>Modelled from the spec: \<open>ContainerService.createContainersOfType\<close> (missing)
  creates \<open>qty\<close> containers of the waste type in the given status, tagged with the
  transaction's sequence number.\<close>

fun create_containers ::
  "nat \<Rightarrow> waste_type_obj \<Rightarrow> container_status \<Rightarrow> nat \<Rightarrow> user \<Rightarrow> store \<Rightarrow> container_obj list \<times> store" where
  "create_containers 0 wasteType status number user s = ([], s)"
| "create_containers (Suc n) wasteType status number user s =
     (let c = (next_id s, \<lparr>c_type = wasteType, c_status = status, c_createdBy = user,
                           c_batchNumber = number\<rparr>);
          s1 = (save_container c s)\<lparr>next_id := Suc (next_id s)\<rparr>;
          (cs, s2) = create_containers n wasteType status number user s1
      in (c # cs, s2))"

definition createContainersOfType ::
  "waste_type_obj \<Rightarrow> int \<Rightarrow> container_status \<Rightarrow> nat \<Rightarrow> user \<Rightarrow> store \<Rightarrow> container_obj list \<times> store" where
  "createContainersOfType wasteType q status number user s =
     create_containers (nat q) wasteType status number user s"

text \<open>Modelled from the spec: \<open>getUserStock(user)\<close> of \<open>StockService\<close> (missing), the
  counters of the user by waste type, as they are when it is called.\<close>

definition getUserStock :: "user \<Rightarrow> store \<Rightarrow> (user \<times> object_id \<rightharpoonup> int)" where
  "getUserStock user s = (\<lambda>k. if fst k = user then stock s k else None)"

definition stock_amount :: "store \<Rightarrow> user \<Rightarrow> object_id \<Rightarrow> int" where
  "stock_amount s user t = (case stock s (user, t) of None \<Rightarrow> 0 | Some a \<Rightarrow> a)"

text \<open>Modelled from the spec: \<open>incrementStock(wasteType, user, qty)\<close> of \<open>StockService\<close>
  (missing) adds \<open>qty\<close> to the counter of the user for the waste type.\<close>

definition incrementStock :: "waste_type_obj \<Rightarrow> user \<Rightarrow> int \<Rightarrow> store \<Rightarrow> store" where
  "incrementStock wasteType user q s =
     s\<lparr>stock := (stock s)((user, fst wasteType) \<mapsto> stock_amount s user (fst wasteType) + q)\<rparr>"

text \<open>Modelled from the spec: \<open>moveStock(wasteType, from, to, qty)\<close> of \<open>StockService\<close>
  (missing) decrements the source and increments the destination; an end that is
  \<open>null\<close> has no counter to change.\<close>

definition moveStock :: "waste_type_obj \<Rightarrow> user option \<Rightarrow> user option \<Rightarrow> int \<Rightarrow> store \<Rightarrow> store" where
  "moveStock wasteType from_user to_user q s =
     (let s1 = (case from_user of None \<Rightarrow> s | Some u \<Rightarrow> incrementStock wasteType u (- q) s)
      in (case to_user of None \<Rightarrow> s1 | Some u \<Rightarrow> incrementStock wasteType u q s1))"

text \<open>Modelled from the spec: \<open>grantReadWrite(entityType, entityId, user)\<close> and
  \<open>revokeReadWrite(entityType, entityId, user)\<close> of \<open>SecurityService\<close> (missing).\<close>

definition grantReadAndWritePermissionsToUser :: "string \<Rightarrow> object_id \<Rightarrow> user \<Rightarrow> store \<Rightarrow> store" where
  "grantReadAndWritePermissionsToUser className i user s =
     s\<lparr>grants := insert (className, i, user) (grants s)\<rparr>"

definition revokeReadAndWritePermissionsToUser :: "string \<Rightarrow> object_id \<Rightarrow> user option \<Rightarrow> store \<Rightarrow> store" where
  "revokeReadAndWritePermissionsToUser className i user s =
     (case user of None \<Rightarrow> s | Some u \<Rightarrow> s\<lparr>grants := grants s - {(className, i, u)}\<rparr>)"

text \<open>Modelled from the spec: \<open>canTransportContainer(container, user)\<close> of
  \<open>SecurityService\<close> (missing) passes or is denied.\<close>

definition canTransportContainer :: "env \<Rightarrow> container_obj \<Rightarrow> user \<Rightarrow> error + unit" where
  "canTransportContainer e c user =
     (if can_transport e c user then Inr () else Inl (TransportDenied (fst c)))"

text \<open>Modelled from the spec: \<open>notifyTransferRequest(transactionId, from, to)\<close> and
  \<open>notifyTransport(transactionId, from, toList)\<close> of \<open>NotificationService\<close> (missing):
  delivery to the users given, whose failures do not reach the workflow. The store
  keeps what the notifier was handed.\<close>

definition notifyTransferRequest :: "object_id \<Rightarrow> user \<Rightarrow> user \<Rightarrow> store \<Rightarrow> store" where
  "notifyTransferRequest i from_user to_user s =
     s\<lparr>notifications := notifications s @ [TransferRequestNotice i from_user to_user]\<rparr>"

definition notifyTransport :: "object_id \<Rightarrow> user \<Rightarrow> user list \<Rightarrow> store \<Rightarrow> store" where
  "notifyTransport i from_user usersList s =
     s\<lparr>notifications := notifications s @ [TransportNotice i from_user usersList]\<rparr>"

section \<open>The transaction service\<close>

subsection \<open>Helpers\<close>

definition findRawTransaction :: "object_id \<Rightarrow> user \<Rightarrow> store \<Rightarrow> error + transaction_obj" where
  "findRawTransaction i user s =
     (case transactions s i of None \<Rightarrow> Inl (TransactionNotFound i) | Some t \<Rightarrow> Inr (i, t))"

text \<open>
  The argument \<open>attributes\<close> of \<open>createTransaction\<close>, as the destructuring reads it: each
  of the five properties is there or \<open>undefined\<close>. The defaults of \<open>from\<close> and
  \<open>recyclingCenter\<close> turn \<open>undefined\<close> into \<open>null\<close>; both are \<open>None\<close>.
\<close>

record attributes =
  a_from :: "user option"
  a_to :: "user option"
  a_type :: "transaction_type option"
  a_recyclingCenter :: "object_id option"
  a_reason :: "string option"

definition no_attributes :: attributes where
  "no_attributes = \<lparr>a_from = None, a_to = None, a_type = None, a_recyclingCenter = None,
                     a_reason = None\<rparr>"

text \<open>
  A \<open>Parse.User\<close> passed where \<open>attributes\<close> is expected: the object has an id and a
  class name, and its data is behind \<open>get\<close>; it has no property named \<open>from\<close>, \<open>to\<close>,
  \<open>type\<close>, \<open>recyclingCenter\<close> or \<open>reason\<close>, so the destructuring finds all five
  \<open>undefined\<close>.
\<close>

definition properties_of_user_object :: "user \<Rightarrow> attributes" where
  "properties_of_user_object u = no_attributes"

definition createTransaction ::
  "env \<Rightarrow> attributes \<Rightarrow> session_arg \<Rightarrow> store \<Rightarrow> (error + transaction_obj) \<times> store" where
  "createTransaction e attrs sessionToken s =
     (let (number, s1) = getValueForNextSequence ''Transaction'' s;
          transaction = \<lparr>tx_type = a_type attrs, tx_from = a_from attrs, tx_to = a_to attrs,
                         tx_number = number, tx_recyclingCenter = a_recyclingCenter attrs,
                         tx_reason = a_reason attrs, tx_relatedTo = None, tx_expiredAt = None,
                         tx_details = []\<rparr>
      in if accepts_transaction e sessionToken transaction
         then (Inr (next_id s1, transaction),
               (save_transaction (next_id s1, transaction) s1)\<lparr>next_id := Suc (next_id s1)\<rparr>)
         else (Inl SaveRejected, s1))"

definition destroyTransaction :: "transaction_obj option \<Rightarrow> store \<Rightarrow> store" where
  "destroyTransaction transaction s =
     (case transaction of
        None \<Rightarrow> s
      | Some t \<Rightarrow> s\<lparr>transactions := (transactions s)(fst t := None)\<rparr>)"

fun rollbackContainersToStatus ::
  "container_obj list \<Rightarrow> container_status \<Rightarrow> (container_obj \<Rightarrow> store \<Rightarrow> store) option \<Rightarrow> store \<Rightarrow> store" where
  "rollbackContainersToStatus [] status applyFnToEach s = s"
| "rollbackContainersToStatus (container # cs) status applyFnToEach s =
     (let (c, s1) = set_status container status s;
          s2 = (case applyFnToEach of None \<Rightarrow> s1 | Some f \<Rightarrow> f c s1);
          s3 = save_container c s2
      in rollbackContainersToStatus cs status applyFnToEach s3)"

text \<open>
  \<open>rollbackUserStockTo\<close> saves, for every counter fetched before the workflow changed
  the stock, the amount it had then.
\<close>

definition rollbackUserStockTo :: "(user \<times> object_id \<rightharpoonup> int) option \<Rightarrow> store \<Rightarrow> store" where
  "rollbackUserStockTo currentStock s =
     (case currentStock of
        None \<Rightarrow> s
      | Some snapshot \<Rightarrow> s\<lparr>stock := (\<lambda>k. case snapshot k of None \<Rightarrow> stock s k | Some a \<Rightarrow> Some a)\<rparr>)"

definition validateTransferAcceptRejectRequest :: "transaction_obj \<Rightarrow> user \<Rightarrow> error + unit" where
  "validateTransferAcceptRejectRequest transferRequestTransaction user =
     (let transactionId = fst transferRequestTransaction
      in if tx_type (snd transferRequestTransaction) \<noteq> Some TRANSFER_REQUEST
         then Inl (NotTransferRequest transactionId)
         else (case tx_expiredAt (snd transferRequestTransaction) of
                 Some d \<Rightarrow> Inl (Expired transactionId d)
               | None \<Rightarrow>
                   (case tx_to (snd transferRequestTransaction) of
                      None \<Rightarrow> Inl (TypeError ''Cannot read property equals of undefined'')
                    | Some to_user \<Rightarrow>
                        if to_user \<noteq> user then Inl NotAllowedAcceptReject else Inr ())))"

text \<open>
  \<open>createTransactionDetail\<close> builds the detail from the container's waste type and saves
  it; a failure of the save is thrown again under the detail wrapper.
\<close>

definition createTransactionDetail ::
  "env \<Rightarrow> transaction_obj \<Rightarrow> container_obj \<Rightarrow> user \<Rightarrow> store \<Rightarrow> (error + detail) \<times> store" where
  "createTransactionDetail e transaction container user s =
     (let wasteType = c_type (snd container);
          transactionDetail = \<lparr>d_transaction = fst transaction, d_qty = wt_qty (snd wasteType),
                               d_unit = wt_unit (snd wasteType), d_container = fst container\<rparr>
      in if accepts_detail e transactionDetail
         then (Inr transactionDetail, s\<lparr>details := details s @ [transactionDetail]\<rparr>)
         else (Inl (DetailNotSaved SaveRejected), s))"

text \<open>
  \<open>createTransactionDetail\<close> called with a Transaction that holds an unsaved \<open>relatedTo\<close>,
  whose object holds an unsaved \<open>expiredAt\<close> (reject and cancel): the save of the detail
  saves the Transaction and the related request as the workflow holds them. A rejected
  save writes nothing.
\<close>

definition createTransactionDetail_related ::
  "env \<Rightarrow> transaction_obj \<Rightarrow> transaction_obj \<Rightarrow> container_obj \<Rightarrow> user \<Rightarrow> store \<Rightarrow>
   (error + detail) \<times> store" where
  "createTransactionDetail_related e transaction related container user s =
     (case createTransactionDetail e transaction container user s of
        (Inl err, s1) \<Rightarrow> (Inl err, s1)
      | (Inr transactionDetail, s1) \<Rightarrow>
          (Inr transactionDetail, save_transaction related (save_transaction transaction s1)))"

text \<open>
  The variables a workflow declares before its \<open>try\<close>, which its \<open>catch\<close> reads: they
  hold what was assigned before the failure.
\<close>

record vars =
  v_transferRequestTransaction :: "transaction_obj option"
  v_transaction :: "transaction_obj option"
  v_containers :: "container_obj list"
  v_recoveredIds :: "object_id list"
  v_transferredIds :: "object_id list"
  v_currentStock :: "(user \<times> object_id \<rightharpoonup> int) option"

definition vars0 :: vars where
  "vars0 = \<lparr>v_transferRequestTransaction = None, v_transaction = None, v_containers = [],
            v_recoveredIds = [], v_transferredIds = [], v_currentStock = None\<rparr>"

subsection \<open>The workflows\<close>

text \<open>
  Each workflow is a \<open>try\<close> block and a \<open>catch\<close> block. The \<open>try\<close> block yields its
  result, the variables as they are when it ends or throws, and the store; the \<open>catch\<close>
  block compensates from the variables and the workflow throws the cause under the
  wrapper \<open>Transaction could not be registered\<close>.
\<close>

definition finish ::
  "(vars \<Rightarrow> store \<Rightarrow> store) \<Rightarrow> (error + transaction_obj) \<times> vars \<times> store \<Rightarrow>
   (error + transaction_obj) \<times> store" where
  "finish catch r =
     (case r of
        (Inr transaction, v, s) \<Rightarrow> (Inr transaction, s)
      | (Inl err, v, s) \<Rightarrow> (Inl (CouldNotBeRegistered err), catch v s))"

text \<open>\<open>registerRecover\<close>. An omitted \<open>containersInput\<close> (\<open>None\<close>) defaults to the empty list.\<close>

definition recover_createContainers ::
  "(object_id \<rightharpoonup> waste_type_obj) \<Rightarrow> transaction_obj \<Rightarrow> user \<Rightarrow> register_item \<Rightarrow> store \<Rightarrow>
   (error + container_obj list) \<times> store" where
  "recover_createContainers wasteTypes transaction user item s =
     (case wasteTypes (typeId item) of
        None \<Rightarrow> (Inl (TypeError ''waste type is undefined''), s)
      | Some wasteType \<Rightarrow>
          (let (cs, s1) = createContainersOfType wasteType (qty item) RECOVERED
                            (tx_number (snd transaction)) user s
           in (Inr cs, s1)))"

definition recover_incrementStock ::
  "(object_id \<rightharpoonup> waste_type_obj) \<Rightarrow> user \<Rightarrow> register_item \<Rightarrow> store \<Rightarrow> (error + unit) \<times> store" where
  "recover_incrementStock wasteTypes user item s =
     (case wasteTypes (typeId item) of
        None \<Rightarrow> (Inl (TypeError ''waste type is undefined''), s)
      | Some wasteType \<Rightarrow> (Inr (), incrementStock wasteType user (qty item) s))"

definition registerRecover_try ::
  "env \<Rightarrow> register_item list option \<Rightarrow> user \<Rightarrow> store \<Rightarrow> (error + transaction_obj) \<times> vars \<times> store" where
  "registerRecover_try e input user s =
     (let containersInput = (case input of None \<Rightarrow> [] | Some xs \<Rightarrow> xs)
      in case validateRegisterInput (MAX_CONTAINERS_QUANTITY_PER_REQUEST e) containersInput of
           Inl err \<Rightarrow> (Inl err, vars0, s)
         | Inr _ \<Rightarrow>
        (case getWasteTypesFromIds e (map typeId containersInput) of
           Inl err \<Rightarrow> (Inl err, vars0, s)
         | Inr wasteTypes \<Rightarrow>
        (let v1 = vars0\<lparr>v_currentStock := Some (getUserStock user s)\<rparr>
         in case createTransaction e (no_attributes\<lparr>a_to := Some user, a_type := Some RECOVER\<rparr>)
                   (SessionToken user) s of
           (Inl err, s1) \<Rightarrow> (Inl err, v1, s1)
         | (Inr transaction, s1) \<Rightarrow>
        (let v2 = v1\<lparr>v_transaction := Some transaction\<rparr>
         in case array_map (recover_createContainers wasteTypes transaction user) containersInput s1 of
           (Inl err, s2) \<Rightarrow> (Inl err, v2, s2)
         | (Inr containers, s2) \<Rightarrow>
        (let (rs, s3) = map_all (\<lambda>container. createTransactionDetail e transaction container user)
                          (concat containers) s2
         in case promise_all rs of
           Inl err \<Rightarrow> (Inl err, v2, s3)
         | Inr ds \<Rightarrow>
        (case array_map (recover_incrementStock wasteTypes user) containersInput s3 of
           (Inl err, s4) \<Rightarrow> (Inl err, v2, s4)
         | (Inr _, s4) \<Rightarrow> (Inr (set_details transaction ds), v2, s4)))))))"

definition registerRecover_catch :: "vars \<Rightarrow> store \<Rightarrow> store" where
  "registerRecover_catch v s =
     rollbackUserStockTo (v_currentStock v) (destroyTransaction (v_transaction v) s)"

definition registerRecover ::
  "env \<Rightarrow> register_item list option \<Rightarrow> user \<Rightarrow> store \<Rightarrow> (error + transaction_obj) \<times> store" where
  "registerRecover e input user s = finish registerRecover_catch (registerRecover_try e input user s)"

text \<open>\<open>registerTransferRequest\<close>. A recipient id that is missing (any falsy \<open>to\<close>) is \<open>None\<close>.\<close>

definition transferRequest_each ::
  "env \<Rightarrow> transaction_obj \<Rightarrow> user \<Rightarrow> user \<Rightarrow> container_obj \<Rightarrow> store \<Rightarrow> (error + detail) \<times> store" where
  "transferRequest_each e transaction recipient user container s =
     (let (c, s1) = set_status container TRANSFER_PENDING s;
          s2 = grantReadAndWritePermissionsToUser ''Container'' (fst c) recipient s1
      in createTransactionDetail e transaction c user s2)"

definition registerTransferRequest_try ::
  "env \<Rightarrow> object_id list \<Rightarrow> object_id option \<Rightarrow> user \<Rightarrow> store \<Rightarrow>
   (error + transaction_obj) \<times> vars \<times> store" where
  "registerTransferRequest_try e containersInput to_id user s =
     (case to_id of
        None \<Rightarrow> (Inl MissingRecipient, vars0, s)
      | Some to_user \<Rightarrow>
     (case findUserById e to_user of
        Inl err \<Rightarrow> (Inl err, vars0, s)
      | Inr recipient \<Rightarrow>
     (case promise_all (map (\<lambda>containerId. findContainerById containerId user s) containersInput) of
        Inl err \<Rightarrow> (Inl err, vars0, s)
      | Inr containers \<Rightarrow>
     (let v1 = vars0\<lparr>v_containers := containers\<rparr>
      in if \<not> list_all (\<lambda>container. c_status (snd container) = RECOVERED) containers
         then (Inl ContainersNotRecovered, v1, s)
         else
     (case createTransaction e
             (no_attributes\<lparr>a_from := Some user, a_to := Some recipient,
                            a_type := Some TRANSFER_REQUEST\<rparr>) (SessionToken user) s of
        (Inl err, s1) \<Rightarrow> (Inl err, v1, s1)
      | (Inr transaction, s1) \<Rightarrow>
     (let v2 = v1\<lparr>v_transaction := Some transaction\<rparr>;
          s2 = grantReadAndWritePermissionsToUser ''Transaction'' (fst transaction) recipient s1;
          (rs, s3) = map_all (transferRequest_each e transaction recipient user) containers s2
      in case promise_all rs of
           Inl err \<Rightarrow> (Inl err, v2, s3)
         | Inr ds \<Rightarrow>
             (let s4 = notifyTransferRequest (fst transaction) user recipient s3
              in (Inr (set_details transaction ds), v2, s4))))))))"

definition registerTransferRequest_catch :: "vars \<Rightarrow> store \<Rightarrow> store" where
  "registerTransferRequest_catch v s =
     (case v_transaction v of
        None \<Rightarrow> s
      | Some transaction \<Rightarrow>
          (let s1 = destroyTransaction (Some transaction) s
           in rollbackContainersToStatus (v_containers v) RECOVERED
                (Some (\<lambda>container. revokeReadAndWritePermissionsToUser ''Container'' (fst container)
                                     (tx_to (snd transaction)))) s1))"

definition registerTransferRequest ::
  "env \<Rightarrow> object_id list \<Rightarrow> object_id option \<Rightarrow> user \<Rightarrow> store \<Rightarrow> (error + transaction_obj) \<times> store" where
  "registerTransferRequest e containersInput to_id user s =
     finish registerTransferRequest_catch (registerTransferRequest_try e containersInput to_id user s)"

text \<open>
  \<open>registerTransferAccept\<close>. The callback of its \<open>map\<close> sets the status, calls
  \<open>StockService.moveStock\<close> and then calls \<open>createTransactionDetail\<close> as a method of what
  \<open>moveStock\<close> returned. \<open>moveStock\<close> returns the promise of its own completion, and a
  promise has no method of that name (\<open>createTransactionDetail\<close> is a function of this
  module): the call is a \<open>TypeError\<close>, thrown inside the callback after \<open>moveStock\<close> was
  started. The stock movement started for that container takes place.
\<close>

definition transferAccept_each ::
  "transaction_obj \<Rightarrow> user option \<Rightarrow> user option \<Rightarrow> user \<Rightarrow> container_obj \<Rightarrow> store \<Rightarrow>
   (error + (error + detail)) \<times> store" where
  "transferAccept_each transaction from_user to_user user container s =
     (let (c, s1) = set_status container TRANSFERRED s;
          s2 = moveStock (c_type (snd c)) from_user to_user 1 s1
      in (Inl (TypeError ''StockService.moveStock(...).createTransactionDetail is not a function''), s2))"

definition transfer_catch :: "vars \<Rightarrow> store \<Rightarrow> store" where
  "transfer_catch v s =
     (case v_transaction v of
        None \<Rightarrow> s
      | Some transaction \<Rightarrow>
          (let s1 = destroyTransaction (Some transaction) s;
               s2 = rollbackContainersToStatus (v_containers v) TRANSFER_PENDING None s1
           in case v_transferRequestTransaction v of
                None \<Rightarrow> s2
              | Some transferRequestTransaction \<Rightarrow>
                  save_transaction (set_expiredAt transferRequestTransaction None) s2))"

definition registerTransferAccept_try ::
  "env \<Rightarrow> object_id \<Rightarrow> user \<Rightarrow> store \<Rightarrow> (error + transaction_obj) \<times> vars \<times> store" where
  "registerTransferAccept_try e transactionId user s =
     (case findRawTransaction transactionId user s of
        Inl err \<Rightarrow> (Inl err, vars0, s)
      | Inr transferRequestTransaction \<Rightarrow>
     (let v1 = vars0\<lparr>v_transferRequestTransaction := Some transferRequestTransaction\<rparr>;
          from_user = tx_from (snd transferRequestTransaction);
          to_user = tx_to (snd transferRequestTransaction)
      in case validateTransferAcceptRejectRequest transferRequestTransaction user of
        Inl err \<Rightarrow> (Inl err, v1, s)
      | Inr _ \<Rightarrow>
     (case createTransaction e
             (no_attributes\<lparr>a_from := from_user, a_to := to_user, a_type := Some TRANSFER_ACCEPT\<rparr>)
             (SessionToken user) s of
        (Inl err, s1) \<Rightarrow> (Inl err, v1, s1)
      | (Inr created, s1) \<Rightarrow>
     (let transaction = set_relatedTo created transferRequestTransaction;
          request = set_expiredAt transferRequestTransaction (Some (now e));
          containers = findContainersByTransaction request s1;
          v2 = v1\<lparr>v_transferRequestTransaction := Some request, v_transaction := Some transaction,
                  v_containers := containers\<rparr>
      in case array_map (transferAccept_each transaction from_user to_user user) containers s1 of
           (Inl err, s4) \<Rightarrow> (Inl err, v2, s4)
         | (Inr rs, s4) \<Rightarrow>
             (case promise_all rs of
                Inl err \<Rightarrow> (Inl err, v2, s4)
              | Inr ds \<Rightarrow> (Inr (set_details transaction ds), v2, s4))))))"

definition registerTransferAccept ::
  "env \<Rightarrow> object_id \<Rightarrow> user \<Rightarrow> store \<Rightarrow> (error + transaction_obj) \<times> store" where
  "registerTransferAccept e transactionId user s =
     finish transfer_catch (registerTransferAccept_try e transactionId user s)"

text \<open>\<open>registerTransferReject\<close>; its \<open>catch\<close> block is the one of the accept workflow
  (the destroy and the rollback run one after the other instead of together).\<close>

definition transferReject_each ::
  "env \<Rightarrow> transaction_obj \<Rightarrow> transaction_obj \<Rightarrow> user \<Rightarrow> container_obj \<Rightarrow> store \<Rightarrow>
   (error + detail) \<times> store" where
  "transferReject_each e transaction transferRequestTransaction user container s =
     (let (c, s1) = set_status container RECOVERED s
      in createTransactionDetail_related e transaction transferRequestTransaction c user s1)"

definition registerTransferReject_try ::
  "env \<Rightarrow> object_id \<Rightarrow> string option \<Rightarrow> user \<Rightarrow> store \<Rightarrow> (error + transaction_obj) \<times> vars \<times> store" where
  "registerTransferReject_try e transactionId reason user s =
     (case findRawTransaction transactionId user s of
        Inl err \<Rightarrow> (Inl err, vars0, s)
      | Inr transferRequestTransaction \<Rightarrow>
     (let v1 = vars0\<lparr>v_transferRequestTransaction := Some transferRequestTransaction\<rparr>
      in case validateTransferAcceptRejectRequest transferRequestTransaction user of
        Inl err \<Rightarrow> (Inl err, v1, s)
      | Inr _ \<Rightarrow>
     (case createTransaction e
             (no_attributes\<lparr>a_from := tx_from (snd transferRequestTransaction),
                            a_to := tx_to (snd transferRequestTransaction),
                            a_type := Some TRANSFER_REJECT, a_reason := reason\<rparr>)
             (SessionToken user) s of
        (Inl err, s1) \<Rightarrow> (Inl err, v1, s1)
      | (Inr created, s1) \<Rightarrow>
     (let transaction = set_relatedTo created transferRequestTransaction;
          request = set_expiredAt transferRequestTransaction (Some (now e));
          containers = findContainersByTransaction request s1;
          v2 = v1\<lparr>v_transferRequestTransaction := Some request, v_transaction := Some transaction,
                  v_containers := containers\<rparr>;
          (rs, s4) = map_all (transferReject_each e transaction request user) containers s1
      in case promise_all rs of
           Inl err \<Rightarrow> (Inl err, v2, s4)
         | Inr ds \<Rightarrow> (Inr (set_details transaction ds), v2, s4)))))"

definition registerTransferReject ::
  "env \<Rightarrow> object_id \<Rightarrow> string option \<Rightarrow> user \<Rightarrow> store \<Rightarrow> (error + transaction_obj) \<times> store" where
  "registerTransferReject e transactionId reason user s =
     finish transfer_catch (registerTransferReject_try e transactionId reason user s)"

text \<open>
  \<open>registerTransferCancel\<close>. It calls \<open>createTransaction\<close> with five arguments: the
  request's \<open>from\<close>, its \<open>to\<close>, the type, \<open>null\<close> and the session token.
  \<open>createTransaction\<close> has two parameters, so \<open>attributes\<close> is the \<open>from\<close> user object,
  \<open>sessionToken\<close> is the \<open>to\<close> user object (or \<open>undefined\<close>), and the other three
  arguments are dropped.
\<close>

definition transferCancel_each ::
  "env \<Rightarrow> transaction_obj \<Rightarrow> transaction_obj \<Rightarrow> user \<Rightarrow> container_obj \<Rightarrow> store \<Rightarrow>
   (error + detail) \<times> store" where
  "transferCancel_each e transaction transferRequestTransaction user container s =
     (let (c, s1) = set_status container RECOVERED s;
          s2 = revokeReadAndWritePermissionsToUser ''Container'' (fst c)
                 (tx_to (snd transferRequestTransaction)) s1
      in createTransactionDetail_related e transaction transferRequestTransaction c user s2)"

definition registerTransferCancel_try ::
  "env \<Rightarrow> object_id \<Rightarrow> user \<Rightarrow> store \<Rightarrow> (error + transaction_obj) \<times> vars \<times> store" where
  "registerTransferCancel_try e transactionId user s =
     (case findRawTransaction transactionId user s of
        Inl err \<Rightarrow> (Inl err, vars0, s)
      | Inr transferRequestTransaction \<Rightarrow>
     (let v1 = vars0\<lparr>v_transferRequestTransaction := Some transferRequestTransaction\<rparr>
      in if tx_type (snd transferRequestTransaction) \<noteq> Some TRANSFER_REQUEST
         then (Inl (NotTransferRequest transactionId), v1, s)
         else
     (case tx_expiredAt (snd transferRequestTransaction) of
        Some d \<Rightarrow> (Inl (Expired transactionId d), v1, s)
      | None \<Rightarrow>
     (case tx_from (snd transferRequestTransaction) of
        None \<Rightarrow> (Inl (TypeError ''Cannot read property equals of null''), v1, s)
      | Some from_user \<Rightarrow>
          if from_user \<noteq> user then (Inl NotAllowedCancel, v1, s)
          else
     (case createTransaction e (properties_of_user_object from_user)
             (case tx_to (snd transferRequestTransaction) of
                None \<Rightarrow> Undefined | Some to_user \<Rightarrow> UserObject to_user) s of
        (Inl err, s1) \<Rightarrow> (Inl err, v1, s1)
      | (Inr created, s1) \<Rightarrow>
     (let transaction = set_relatedTo created transferRequestTransaction;
          request = set_expiredAt transferRequestTransaction (Some (now e));
          containers = findContainersByTransaction request s1;
          v2 = v1\<lparr>v_transferRequestTransaction := Some request, v_transaction := Some transaction,
                  v_containers := containers\<rparr>;
          (rs, s4) = map_all (transferCancel_each e transaction request user) containers s1
      in case promise_all rs of
           Inl err \<Rightarrow> (Inl err, v2, s4)
         | Inr ds \<Rightarrow> (Inr (set_details transaction ds), v2, s4)))))))"

definition registerTransferCancel_catch :: "vars \<Rightarrow> store \<Rightarrow> store" where
  "registerTransferCancel_catch v s =
     (case v_transaction v of
        None \<Rightarrow> s
      | Some transaction \<Rightarrow>
          (let s1 = destroyTransaction (Some transaction) s
           in case v_transferRequestTransaction v of
                None \<Rightarrow> s1
              | Some transferRequestTransaction \<Rightarrow>
                  (let s2 = rollbackContainersToStatus (v_containers v) TRANSFER_PENDING
                              (Some (\<lambda>container.
                                 case tx_to (snd transferRequestTransaction) of
                                   None \<Rightarrow> (\<lambda>st. st)
                                 | Some to_user \<Rightarrow>
                                     grantReadAndWritePermissionsToUser ''Container''
                                       (fst container) to_user)) s1
                   in save_transaction (set_expiredAt transferRequestTransaction None) s2)))"

definition registerTransferCancel ::
  "env \<Rightarrow> object_id \<Rightarrow> user \<Rightarrow> store \<Rightarrow> (error + transaction_obj) \<times> store" where
  "registerTransferCancel e transactionId user s =
     finish registerTransferCancel_catch (registerTransferCancel_try e transactionId user s)"

text \<open>\<open>registerTransport\<close>. A destination id that is missing (any falsy \<open>to\<close>) is \<open>None\<close>.\<close>

definition transport_each ::
  "env \<Rightarrow> transaction_obj \<Rightarrow> user \<Rightarrow> container_obj \<Rightarrow> store \<Rightarrow> (error + detail) \<times> store" where
  "transport_each e transaction user container s =
     (let (c, s1) = set_status container IN_TRANSIT s
      in createTransactionDetail e transaction c user s1)"

definition transport_usersList :: "container_obj list \<Rightarrow> user \<Rightarrow> user list" where
  "transport_usersList containers user =
     filter (\<lambda>u. u \<noteq> user) (map (\<lambda>c. c_createdBy (snd c)) containers)"

definition registerTransport_try ::
  "env \<Rightarrow> object_id list \<Rightarrow> object_id option \<Rightarrow> user \<Rightarrow> store \<Rightarrow>
   (error + transaction_obj) \<times> vars \<times> store" where
  "registerTransport_try e containersInput to_id user s =
     (case to_id of
        None \<Rightarrow> (Inl MissingDestination, vars0, s)
      | Some to_center \<Rightarrow>
     (case findRecyclingCenterById e to_center of
        Inl err \<Rightarrow> (Inl err, vars0, s)
      | Inr recyclingCenter \<Rightarrow>
     (case promise_all (map (\<lambda>containerId. findContainerById containerId user s) containersInput) of
        Inl err \<Rightarrow> (Inl err, vars0, s)
      | Inr containers \<Rightarrow>
     (let recoveredIds = map fst (filter (\<lambda>c. c_status (snd c) = RECOVERED) containers);
          transferredIds = map fst (filter (\<lambda>c. c_status (snd c) = TRANSFERRED) containers);
          v1 = vars0\<lparr>v_containers := containers, v_recoveredIds := recoveredIds,
                     v_transferredIds := transferredIds\<rparr>
      in if \<not> list_all (\<lambda>container. c_status (snd container) \<in> set [RECOVERED, TRANSFERRED]) containers
         then (Inl ContainersNotTransportable, v1, s)
         else
     (case promise_all (map (\<lambda>container. canTransportContainer e container user) containers) of
        Inl err \<Rightarrow> (Inl err, v1, s)
      | Inr _ \<Rightarrow>
     (case createTransaction e
             (no_attributes\<lparr>a_from := Some user, a_type := Some TRANSPORT,
                            a_recyclingCenter := Some recyclingCenter\<rparr>) (SessionToken user) s of
        (Inl err, s1) \<Rightarrow> (Inl err, v1, s1)
      | (Inr transaction, s1) \<Rightarrow>
     (let v2 = v1\<lparr>v_transaction := Some transaction\<rparr>;
          (rs, s2) = map_all (transport_each e transaction user) containers s1
      in case promise_all rs of
           Inl err \<Rightarrow> (Inl err, v2, s2)
         | Inr ds \<Rightarrow>
             (let usersList = transport_usersList containers user;
                  s3 = notifyTransport (fst transaction) user usersList s2
              in (Inr (set_details transaction ds), v2, s3)))))))))"

definition registerTransport_catch :: "vars \<Rightarrow> store \<Rightarrow> store" where
  "registerTransport_catch v s =
     (case v_transaction v of
        None \<Rightarrow> s
      | Some transaction \<Rightarrow>
          (let s1 = destroyTransaction (Some transaction) s;
               s2 = rollbackContainersToStatus
                      (filter (\<lambda>c. fst c \<in> set (v_recoveredIds v)) (v_containers v)) RECOVERED None s1
           in rollbackContainersToStatus
                (filter (\<lambda>c. fst c \<in> set (v_transferredIds v)) (v_containers v)) TRANSFERRED None s2))"

definition registerTransport ::
  "env \<Rightarrow> object_id list \<Rightarrow> object_id option \<Rightarrow> user \<Rightarrow> store \<Rightarrow> (error + transaction_obj) \<times> store" where
  "registerTransport e containersInput to_id user s =
     finish registerTransport_catch (registerTransport_try e containersInput to_id user s)"

section \<open>The ledger and its sequence\<close>

text \<open>
  Every Transaction gets its number from the sequence when \<open>createTransaction\<close> creates
  it, so a ledger written by the workflows holds no number beyond the current value of
  the sequence.
\<close>

definition ledger_numbered :: "store \<Rightarrow> bool" where
  "ledger_numbered s =
     (\<forall>i t. transactions s i = Some t \<longrightarrow> tx_number t \<le> sequences s ''Transaction'')"

section \<open>A scenario\<close>

text \<open>
  User 1 has recovered two containers of plastic (\<open>recovered_store\<close>), then asked to
  transfer them to user 2 (\<open>pending_store\<close>). \<open>demo_env\<close> knows users 1 to 3 and
  recycling center 50, and its store accepts every save.
\<close>

definition plastic :: waste_type_obj where
  "plastic = (10, \<lparr>wt_qty = 1, wt_unit = ''kg''\<rparr>)"

definition plastic_container :: "container_status \<Rightarrow> container" where
  "plastic_container status =
     \<lparr>c_type = plastic, c_status = status, c_createdBy = 1, c_batchNumber = 1\<rparr>"

definition plastic_detail :: "object_id \<Rightarrow> object_id \<Rightarrow> detail" where
  "plastic_detail t c = \<lparr>d_transaction = t, d_qty = 1, d_unit = ''kg'', d_container = c\<rparr>"

definition demo_env :: env where
  "demo_env =
     \<lparr>MAX_CONTAINERS_QUANTITY_PER_REQUEST = 5, now = 100, user_exists = (\<lambda>u. u \<in> set [1, 2, 3]),
      recycling_center_exists = (\<lambda>i. i = 50), waste_types = [10 \<mapsto> snd plastic],
      can_transport = (\<lambda>c u. True), accepts_transaction = (\<lambda>a t. True),
      accepts_detail = (\<lambda>d. True)\<rparr>"

definition recover_transaction :: transaction where
  "recover_transaction =
     \<lparr>tx_type = Some RECOVER, tx_from = None, tx_to = Some 1, tx_number = 1,
      tx_recyclingCenter = None, tx_reason = None, tx_relatedTo = None, tx_expiredAt = None,
      tx_details = []\<rparr>"

definition request_transaction :: transaction where
  "request_transaction =
     \<lparr>tx_type = Some TRANSFER_REQUEST, tx_from = Some 1, tx_to = Some 2, tx_number = 2,
      tx_recyclingCenter = None, tx_reason = None, tx_relatedTo = None, tx_expiredAt = None,
      tx_details = []\<rparr>"

definition recovered_store :: store where
  "recovered_store =
     \<lparr>transactions = [100 \<mapsto> recover_transaction],
      container_registry = [101 \<mapsto> plastic_container RECOVERED, 102 \<mapsto> plastic_container RECOVERED],
      details = [plastic_detail 100 101, plastic_detail 100 102],
      stock = [(1, 10) \<mapsto> 2], grants = {}, notifications = [],
      sequences = (\<lambda>name. 0)(''Transaction'' := 1), next_id = 103\<rparr>"

definition pending_store :: store where
  "pending_store =
     \<lparr>transactions = [100 \<mapsto> recover_transaction, 103 \<mapsto> request_transaction],
      container_registry = [101 \<mapsto> plastic_container TRANSFER_PENDING,
                            102 \<mapsto> plastic_container TRANSFER_PENDING],
      details = [plastic_detail 100 101, plastic_detail 100 102,
                 plastic_detail 103 101, plastic_detail 103 102],
      stock = [(1, 10) \<mapsto> 2],
      grants = {(''Transaction'', 103, 2), (''Container'', 101, 2), (''Container'', 102, 2)},
      notifications = [TransferRequestNotice 103 1 2],
      sequences = (\<lambda>name. 0)(''Transaction'' := 2), next_id = 104\<rparr>"

text \<open>\<open>empty_request_store\<close> is \<open>recovered_store\<close> after user 1 has asked to transfer an
  empty list of containers to user 2: request 103 has no detail.\<close>

definition empty_request_store :: store where
  "empty_request_store =
     recovered_store
       \<lparr>transactions := [100 \<mapsto> recover_transaction, 103 \<mapsto> request_transaction],
        grants := {(''Transaction'', 103, 2)},
        notifications := [TransferRequestNotice 103 1 2],
        sequences := (\<lambda>name. 0)(''Transaction'' := 2), next_id := 104\<rparr>"

definition accept_transaction :: "nat \<Rightarrow> transaction" where
  "accept_transaction number =
     \<lparr>tx_type = Some TRANSFER_ACCEPT, tx_from = Some 1, tx_to = Some 2, tx_number = number,
      tx_recyclingCenter = None, tx_reason = None, tx_relatedTo = Some 103, tx_expiredAt = None,
      tx_details = []\<rparr>"

text \<open>\<open>rejecting_env\<close> is \<open>demo_env\<close> with a store that rejects the detail of container
  102; \<open>transport_transaction\<close> is the Transaction user 3 creates when transporting to
  recycling center 50 from \<open>recovered_store\<close>.\<close>

definition rejecting_env :: env where
  "rejecting_env = demo_env\<lparr>accepts_detail := (\<lambda>d. d_container d \<noteq> 102)\<rparr>"

definition transport_transaction :: transaction where
  "transport_transaction =
     \<lparr>tx_type = Some TRANSPORT, tx_from = Some 3, tx_to = None, tx_number = 2,
      tx_recyclingCenter = Some 50, tx_reason = None, tx_relatedTo = None, tx_expiredAt = None,
      tx_details = []\<rparr>"

section \<open>Properties of the validation and of the decorator\<close>

lemma validateRegisterInput_forEach_ok:
  "(validateRegisterInput_forEach maxQty m items = Inr ()) =
     (distinct (map typeId items) \<and> (\<forall>i \<in> set items. m (typeId i) = None \<and> qty i \<le> maxQty))"
proof (induction items arbitrary: m)
  case Nil
  show ?case by simp
next
  case (Cons item items)
  show ?case
  proof (cases "m (typeId item) = None \<and> qty item \<le> maxQty")
    case False
    then show ?thesis by (auto simp: Let_def)
  next
    case True
    then have "(validateRegisterInput_forEach maxQty m (item # items) = Inr ()) =
               (validateRegisterInput_forEach maxQty (m(typeId item \<mapsto> typeId item)) items = Inr ())"
      by (simp add: Let_def)
    also have "\<dots> = (distinct (map typeId items) \<and>
        (\<forall>i \<in> set items. (m(typeId item \<mapsto> typeId item)) (typeId i) = None \<and> qty i \<le> maxQty))"
      by (rule Cons.IH)
    also have "\<dots> = (distinct (map typeId (item # items)) \<and>
        (\<forall>i \<in> set (item # items). m (typeId i) = None \<and> qty i \<le> maxQty))"
      using True by (auto simp: image_iff)
    finally show ?thesis .
  qed
qed

lemma validateRegisterInput_forEach_error:
  "validateRegisterInput_forEach maxQty m items = Inl e \<Longrightarrow> validation_error e"
  by (induction items arbitrary: m) (auto simp: Let_def split: if_splits)

text \<open>
  Claim C8. \<open>validateRegisterInput\<close> throws exactly when two items of the list have the
  same waste-type id or some item asks for more than the configured maximum, and what
  it throws is a validation error; otherwise it returns, and being a function of its
  input alone it has no effect.
\<close>

theorem validateRegisterInput_raises_iff:
  "((\<exists>e. validateRegisterInput maxQty items = Inl e \<and> validation_error e) \<longleftrightarrow>
      (\<not> distinct (map typeId items) \<or> (\<exists>i \<in> set items. qty i > maxQty))) \<and>
   (validateRegisterInput maxQty items = Inr () \<longleftrightarrow>
      \<not> (\<not> distinct (map typeId items) \<or> (\<exists>i \<in> set items. qty i > maxQty)))"
proof -
  have ok: "(validateRegisterInput maxQty items = Inr ()) =
              (distinct (map typeId items) \<and> (\<forall>i \<in> set items. qty i \<le> maxQty))"
    by (simp add: validateRegisterInput_def validateRegisterInput_forEach_ok)
  have err: "\<And>e. validateRegisterInput maxQty items = Inl e \<Longrightarrow> validation_error e"
    by (simp add: validateRegisterInput_def validateRegisterInput_forEach_error)
  show ?thesis
  proof (cases "validateRegisterInput maxQty items")
    case (Inl e)
    with ok err [of e] show ?thesis by (auto simp: not_le)
  next
    case (Inr u)
    with ok show ?thesis by (auto simp: not_le)
  qed
qed

theorem validateRegisterInput_raises_iff_witness:
  "validateRegisterInput 5 [\<lparr>typeId = 1, qty = 2\<rparr>, \<lparr>typeId = 1, qty = 1\<rparr>] = Inl (DuplicatedWasteType 1) \<and>
   validateRegisterInput 5 [\<lparr>typeId = 1, qty = 2\<rparr>, \<lparr>typeId = 2, qty = 6\<rparr>] = Inl (MaxQuantityExceeded 5) \<and>
   validateRegisterInput 5 [\<lparr>typeId = 1, qty = 2\<rparr>, \<lparr>typeId = 2, qty = 5\<rparr>] = Inr ()"
  using validateRegisterInput_raises_iff [of 5 "[\<lparr>typeId = 1, qty = 2\<rparr>, \<lparr>typeId = 2, qty = 5\<rparr>]"]
  by (simp add: validateRegisterInput_def)

text \<open>
  Claim C10. A function wrapped with \<open>secure\<close>, called with neither the master flag nor
  a user, throws \<open>INVALID_SESSION_TOKEN\<close> and leaves the state as it was, whatever the
  wrapped callback would have done to it: the callback is not run. With the master flag
  or a user, the call is the callback's call on the same request.
\<close>

theorem secure_checks_session:
  "(\<not> master request \<and> req_user request = None \<longrightarrow>
      secure callback request s = (Inl (INVALID_SESSION_TOKEN ''User needs to be authenticated''), s)) \<and>
   (master request \<or> req_user request \<noteq> None \<longrightarrow>
      secure callback request s = callback request s)"
  by (auto simp: secure_def Let_def)

theorem secure_checks_session_witness:
  "secure (\<lambda>r n. (Inr (params r), Suc n)) \<lparr>master = False, req_user = None, params = ''p''\<rparr> (0::nat)
     = (Inl (INVALID_SESSION_TOKEN ''User needs to be authenticated''), 0) \<and>
   secure (\<lambda>r n. (Inr (params r), Suc n)) \<lparr>master = False, req_user = Some 7, params = ''p''\<rparr> (0::nat)
     = (Inr ''p'', 1) \<and>
   secure (\<lambda>r n. (Inr (params r), Suc n)) \<lparr>master = True, req_user = None, params = ''p''\<rparr> (0::nat)
     = (Inr ''p'', 1)"
  using secure_checks_session [of "\<lparr>master = False, req_user = None, params = ''p''\<rparr>"
          "\<lambda>r n. (Inr (params r), Suc n)" "0::nat"]
        secure_checks_session [of "\<lparr>master = False, req_user = Some 7, params = ''p''\<rparr>"
          "\<lambda>r n. (Inr (params r), Suc n)" "0::nat"]
        secure_checks_session [of "\<lparr>master = True, req_user = None, params = ''p''\<rparr>"
          "\<lambda>r n. (Inr (params r), Suc n)" "0::nat"]
  by simp

section \<open>Properties of the workflows\<close>

text \<open>The definitions a concrete run unfolds.\<close>

lemmas scenario_defs = demo_env_def rejecting_env_def recovered_store_def pending_store_def
  plastic_def plastic_container_def plastic_detail_def recover_transaction_def
  request_transaction_def transport_transaction_def empty_request_store_def
  accept_transaction_def

lemmas transport_defs = registerTransport_def registerTransport_try_def registerTransport_catch_def
  findRecyclingCenterById_def findContainerById_def canTransportContainer_def createTransaction_def
  getValueForNextSequence_def save_transaction_def save_container_def transport_each_def
  set_status_def createTransactionDetail_def transport_usersList_def notifyTransport_def
  set_details_def destroyTransaction_def no_attributes_def vars0_def finish_def Let_def

lemmas transfer_defs = registerTransferAccept_def registerTransferAccept_try_def transfer_catch_def
  registerTransferReject_def registerTransferReject_try_def transferReject_each_def
  registerTransferCancel_def registerTransferCancel_try_def registerTransferCancel_catch_def
  findRawTransaction_def validateTransferAcceptRejectRequest_def createTransaction_def
  getValueForNextSequence_def save_transaction_def save_container_def set_relatedTo_def
  set_expiredAt_def findContainersByTransaction_def List.map_filter_def transferAccept_each_def
  transferCancel_each_def set_status_def moveStock_def incrementStock_def stock_amount_def
  revokeReadAndWritePermissionsToUser_def grantReadAndWritePermissionsToUser_def
  createTransactionDetail_def createTransactionDetail_related_def set_details_def
  destroyTransaction_def no_attributes_def properties_of_user_object_def vars0_def finish_def
  Let_def

lemma finish_simps:
  "finish catch (Inr t, v, s) = (Inr t, s)"
  "finish catch (Inl err, v, s) = (Inl (CouldNotBeRegistered err), catch v s)"
  by (simp_all add: finish_def)

lemma catch_no_transaction:
  "v_transaction v = None \<Longrightarrow> transfer_catch v s = s"
  "v_transaction v = None \<Longrightarrow> registerTransferCancel_catch v s = s"
  "v_transaction v = None \<Longrightarrow> registerTransferRequest_catch v s = s"
  "v_transaction v = None \<Longrightarrow> registerTransport_catch v s = s"
  by (simp_all add: transfer_catch_def registerTransferCancel_catch_def
        registerTransferRequest_catch_def registerTransport_catch_def)

lemma vars0_simps:
  "v_transaction vars0 = None" "v_containers vars0 = []" "v_currentStock vars0 = None"
  "v_transferRequestTransaction vars0 = None"
  by (simp_all add: vars0_def)

text \<open>
  A TRANSFER_REQUEST whose stored \<open>expiredAt\<close> is set is refused by the three workflows,
  for any user: each fails with the validation error \<open>expired\<close> under the workflow's
  wrapper and leaves the store exactly as it was.
\<close>

lemma expired_request_rejected:
  assumes "transactions s transactionId = Some r"
    and "tx_type r = Some TRANSFER_REQUEST"
    and "tx_expiredAt r = Some d"
  shows "validation_error (Expired transactionId d) \<and>
         registerTransferAccept e transactionId user s =
           (Inl (CouldNotBeRegistered (Expired transactionId d)), s) \<and>
         registerTransferReject e transactionId reason user s =
           (Inl (CouldNotBeRegistered (Expired transactionId d)), s) \<and>
         registerTransferCancel e transactionId user s =
           (Inl (CouldNotBeRegistered (Expired transactionId d)), s)"
proof -
  have v: "validateTransferAcceptRejectRequest (transactionId, r) user = Inl (Expired transactionId d)"
    using assms by (simp add: validateTransferAcceptRejectRequest_def)
  have f: "findRawTransaction transactionId user s = Inr (transactionId, r)"
    using assms by (simp add: findRawTransaction_def)
  have a: "registerTransferAccept e transactionId user s =
           (Inl (CouldNotBeRegistered (Expired transactionId d)), s)"
    by (simp add: registerTransferAccept_def registerTransferAccept_try_def f v Let_def
          finish_simps catch_no_transaction vars0_simps)
  have b: "registerTransferReject e transactionId reason user s =
           (Inl (CouldNotBeRegistered (Expired transactionId d)), s)"
    by (simp add: registerTransferReject_def registerTransferReject_try_def f v Let_def
          finish_simps catch_no_transaction vars0_simps)
  have c: "registerTransferCancel e transactionId user s =
           (Inl (CouldNotBeRegistered (Expired transactionId d)), s)"
    using assms
    by (simp add: registerTransferCancel_def registerTransferCancel_try_def f Let_def
          finish_simps catch_no_transaction vars0_simps)
  show ?thesis using a b c by simp
qed

text \<open>
  A reject or a cancel that saves at least one detail leaves the request in the ledger,
  still a TRANSFER_REQUEST, with \<open>expiredAt\<close> set to the date of the call; from then on
  the three workflows refuse it.
\<close>

lemma createTransactionDetail_related_transactions:
  "transactions (snd (createTransactionDetail_related e t r c u s)) =
     (if isl (fst (createTransactionDetail_related e t r c u s)) then transactions s
      else (transactions s)(fst t \<mapsto> snd t, fst r \<mapsto> snd r))"
  by (simp add: createTransactionDetail_related_def createTransactionDetail_def
        save_transaction_def Let_def)

lemma related_each_stores:
  "\<not> isl (fst (transferReject_each e t r u c s)) \<Longrightarrow>
     transactions (snd (transferReject_each e t r u c s)) (fst r) = Some (snd r)"
  "\<not> isl (fst (transferCancel_each e t r u c s)) \<Longrightarrow>
     transactions (snd (transferCancel_each e t r u c s)) (fst r) = Some (snd r)"
  by (simp_all add: transferReject_each_def transferCancel_each_def set_status_def Let_def
        createTransactionDetail_related_transactions)

lemma related_each_keeps:
  "transactions s (fst r) = Some (snd r) \<Longrightarrow>
     transactions (snd (transferReject_each e t r u c s)) (fst r) = Some (snd r)"
  "transactions s (fst r) = Some (snd r) \<Longrightarrow>
     transactions (snd (transferCancel_each e t r u c s)) (fst r) = Some (snd r)"
  by (simp_all add: transferReject_each_def transferCancel_each_def set_status_def Let_def
        createTransactionDetail_related_transactions save_container_def
        revokeReadAndWritePermissionsToUser_def split: option.splits)

lemma map_all_keeps:
  assumes "\<And>x s. P s \<Longrightarrow> P (snd (f x s))"
  shows "P s \<Longrightarrow> P (snd (map_all f xs s))"
  using assms by (induction xs arbitrary: s) (simp_all add: split_beta Let_def)

lemma map_all_stores:
  assumes stores: "\<And>x s. \<not> isl (fst (f x s)) \<Longrightarrow> P (snd (f x s))"
    and keeps: "\<And>x s. P s \<Longrightarrow> P (snd (f x s))"
    and joined: "promise_all (fst (map_all f xs s)) = Inr ds"
    and some: "ds \<noteq> []"
  shows "P (snd (map_all f xs s))"
proof (cases xs)
  case Nil
  with joined some show ?thesis by simp
next
  case (Cons x xs')
  from joined Cons have "\<not> isl (fst (f x s))"
    by (cases "fst (f x s)") (simp_all add: split_beta Let_def)
  then have "P (snd (f x s))" by (rule stores)
  then have "P (snd (map_all f xs' (snd (f x s))))"
    using keeps by (rule map_all_keeps [rotated])
  with Cons show ?thesis by (simp add: split_beta Let_def)
qed

lemma registerTransferReject_with_detail:
  assumes "registerTransferReject e i reason u s0 = (Inr t, s)"
    and "tx_details (snd t) \<noteq> []"
  shows "\<exists>r. transactions s i = Some r \<and> tx_type r = Some TRANSFER_REQUEST \<and>
             tx_expiredAt r = Some (now e)"
proof -
  from assms(1) obtain v where body: "registerTransferReject_try e i reason u s0 = (Inr t, v, s)"
    by (auto simp: registerTransferReject_def finish_def split: prod.splits sum.splits)
  then obtain b created s1 cs ds where
    f: "transactions s0 i = Some b" "tx_type b = Some TRANSFER_REQUEST"
    and j: "promise_all (fst (map_all (transferReject_each e (set_relatedTo created (i, b))
                (set_expiredAt (i, b) (Some (now e))) u) cs s1)) = Inr ds"
    and t: "t = set_details (set_relatedTo created (i, b)) ds"
    and s: "s = snd (map_all (transferReject_each e (set_relatedTo created (i, b))
                (set_expiredAt (i, b) (Some (now e))) u) cs s1)"
    by (fastforce simp: registerTransferReject_try_def findRawTransaction_def
          validateTransferAcceptRejectRequest_def Let_def split_beta
        split: option.splits sum.splits if_splits prod.splits)
  from t assms(2) have "ds \<noteq> []" by (simp add: set_details_def)
  with j have "transactions s (fst (set_expiredAt (i, b) (Some (now e)))) =
               Some (snd (set_expiredAt (i, b) (Some (now e))))"
    unfolding s
    by (intro map_all_stores [where P = "\<lambda>s. transactions s (fst (set_expiredAt (i, b) (Some (now e)))) =
               Some (snd (set_expiredAt (i, b) (Some (now e))))" and ds = ds])
       (simp_all add: related_each_stores related_each_keeps)
  with f show ?thesis by (simp add: set_expiredAt_def)
qed

lemma registerTransferCancel_with_detail:
  assumes "registerTransferCancel e i u s0 = (Inr t, s)"
    and "tx_details (snd t) \<noteq> []"
  shows "\<exists>r. transactions s i = Some r \<and> tx_type r = Some TRANSFER_REQUEST \<and>
             tx_expiredAt r = Some (now e)"
proof -
  from assms(1) obtain v where body: "registerTransferCancel_try e i u s0 = (Inr t, v, s)"
    by (auto simp: registerTransferCancel_def finish_def split: prod.splits sum.splits)
  then obtain b created s1 cs ds where
    f: "transactions s0 i = Some b" "tx_type b = Some TRANSFER_REQUEST"
    and j: "promise_all (fst (map_all (transferCancel_each e (set_relatedTo created (i, b))
                (set_expiredAt (i, b) (Some (now e))) u) cs s1)) = Inr ds"
    and t: "t = set_details (set_relatedTo created (i, b)) ds"
    and s: "s = snd (map_all (transferCancel_each e (set_relatedTo created (i, b))
                (set_expiredAt (i, b) (Some (now e))) u) cs s1)"
    by (fastforce simp: registerTransferCancel_try_def findRawTransaction_def Let_def split_beta
        split: option.splits sum.splits if_splits prod.splits)
  from t assms(2) have "ds \<noteq> []" by (simp add: set_details_def)
  with j have "transactions s (fst (set_expiredAt (i, b) (Some (now e)))) =
               Some (snd (set_expiredAt (i, b) (Some (now e))))"
    unfolding s
    by (intro map_all_stores [where P = "\<lambda>s. transactions s (fst (set_expiredAt (i, b) (Some (now e)))) =
               Some (snd (set_expiredAt (i, b) (Some (now e))))" and ds = ds])
       (simp_all add: related_each_stores related_each_keeps)
  with f show ?thesis by (simp add: set_expiredAt_def)
qed

lemma consumed_by_reject_or_cancel_with_detail:
  assumes "registerTransferReject e0 i reason0 user0 s0 = (Inr t, s) \<or>
           registerTransferCancel e0 i user0 s0 = (Inr t, s)"
    and "tx_details (snd t) \<noteq> []"
  shows "registerTransferAccept e i user s = (Inl (CouldNotBeRegistered (Expired i (now e0))), s) \<and>
         registerTransferReject e i reason user s = (Inl (CouldNotBeRegistered (Expired i (now e0))), s) \<and>
         registerTransferCancel e i user s = (Inl (CouldNotBeRegistered (Expired i (now e0))), s)"
proof -
  from assms have "\<exists>r. transactions s i = Some r \<and> tx_type r = Some TRANSFER_REQUEST \<and>
                 tx_expiredAt r = Some (now e0)"
  proof (elim disjE)
    assume "registerTransferReject e0 i reason0 user0 s0 = (Inr t, s)"
    then show ?thesis using assms(2) by (rule registerTransferReject_with_detail)
  next
    assume "registerTransferCancel e0 i user0 s0 = (Inr t, s)"
    then show ?thesis using assms(2) by (rule registerTransferCancel_with_detail)
  qed
  then obtain r where "transactions s i = Some r" "tx_type r = Some TRANSFER_REQUEST"
      "tx_expiredAt r = Some (now e0)"
    by auto
  then show ?thesis
    using expired_request_rejected [of s i r "now e0" e user reason] by simp
qed

text \<open>So request 103 of \<open>pending_store\<close>, which has two containers, is rejected once.\<close>

lemma pending_request_is_rejected_once:
  "fst (registerTransferReject demo_env 103 None 2 pending_store) =
     Inr (104, (accept_transaction 3)
                 \<lparr>tx_type := Some TRANSFER_REJECT,
                  tx_details := [plastic_detail 104 101, plastic_detail 104 102]\<rparr>) \<and>
   registerTransferAccept demo_env 103 2
       (snd (registerTransferReject demo_env 103 None 2 pending_store)) =
     (Inl (CouldNotBeRegistered (Expired 103 100)),
      snd (registerTransferReject demo_env 103 None 2 pending_store))"
proof -
  let ?X = "registerTransferReject demo_env 103 None 2 pending_store"
  let ?t = "(104, (accept_transaction 3)
                 \<lparr>tx_type := Some TRANSFER_REJECT,
                  tx_details := [plastic_detail 104 101, plastic_detail 104 102]\<rparr>)"
  have fx: "fst ?X = Inr ?t"
    by (simp add: transfer_defs scenario_defs)
  then have X: "?X = (Inr ?t, snd ?X)" by (metis prod.collapse)
  have d: "tx_details (snd ?t) \<noteq> []" by simp
  from consumed_by_reject_or_cancel_with_detail [OF disjI1, OF X d, of demo_env 2 None] fx
  show ?thesis by (simp add: demo_env_def)
qed

lemma array_map_transferAccept_each:
  "array_map (transferAccept_each t f g u) cs s = (Inr rs, s') \<Longrightarrow> cs = [] \<and> rs = []"
  by (cases cs) (auto simp: transferAccept_each_def Let_def split: prod.splits)

text \<open>
  Claim C1 at a request that lists no container. User 1 asks to transfer the empty list
  to user 2, which creates request 103. User 2 accepts it, and the call returns a
  TRANSFER_ACCEPT Transaction; the stored request still has no \<open>expiredAt\<close>, since the
  workflow set it on the object it holds and saved no detail that would carry it. User 2
  accepts the same request again and the call returns again. Likewise user 2 rejects
  it, and then user 1 cancels it.
\<close>

theorem request_without_containers_is_not_consumed:
  "registerTransferRequest demo_env [] (Some 2) 1 recovered_store =
     (Inr (103, request_transaction), empty_request_store) \<and>
   fst (registerTransferAccept demo_env 103 2 empty_request_store) =
     Inr (104, accept_transaction 3) \<and>
   transactions (snd (registerTransferAccept demo_env 103 2 empty_request_store)) 103 =
     Some request_transaction \<and>
   tx_expiredAt request_transaction = None \<and>
   fst (registerTransferAccept demo_env 103 2
          (snd (registerTransferAccept demo_env 103 2 empty_request_store))) =
     Inr (105, accept_transaction 4) \<and>
   fst (registerTransferReject demo_env 103 None 2 empty_request_store) =
     Inr (104, (accept_transaction 3)\<lparr>tx_type := Some TRANSFER_REJECT\<rparr>) \<and>
   fst (registerTransferCancel demo_env 103 1
          (snd (registerTransferReject demo_env 103 None 2 empty_request_store))) =
     Inr (105, \<lparr>tx_type = None, tx_from = None, tx_to = None, tx_number = 4,
                 tx_recyclingCenter = None, tx_reason = None, tx_relatedTo = Some 103,
                 tx_expiredAt = None, tx_details = []\<rparr>)"
proof -
  have request: "registerTransferRequest demo_env [] (Some 2) 1 recovered_store =
     (Inr (103, request_transaction), empty_request_store)"
    by (auto simp: registerTransferRequest_def registerTransferRequest_try_def findUserById_def
          createTransaction_def getValueForNextSequence_def Let_def finish_def vars0_def
          save_transaction_def grantReadAndWritePermissionsToUser_def notifyTransferRequest_def
          set_details_def no_attributes_def scenario_defs fun_eq_iff)
  have accept: "fst (registerTransferAccept demo_env 103 2 empty_request_store) =
     Inr (104, accept_transaction 3)"
    "transactions (snd (registerTransferAccept demo_env 103 2 empty_request_store)) 103 =
     Some request_transaction"
    by (simp_all add: transfer_defs scenario_defs)
  have again: "fst (registerTransferAccept demo_env 103 2
          (snd (registerTransferAccept demo_env 103 2 empty_request_store))) =
     Inr (105, accept_transaction 4)"
    by (simp add: transfer_defs scenario_defs)
  have reject: "fst (registerTransferReject demo_env 103 None 2 empty_request_store) =
     Inr (104, (accept_transaction 3)\<lparr>tx_type := Some TRANSFER_REJECT\<rparr>)"
    by (simp add: transfer_defs scenario_defs)
  have cancel: "fst (registerTransferCancel demo_env 103 1
          (snd (registerTransferReject demo_env 103 None 2 empty_request_store))) =
     Inr (105, \<lparr>tx_type = None, tx_from = None, tx_to = None, tx_number = 4,
                 tx_recyclingCenter = None, tx_reason = None, tx_relatedTo = Some 103,
                 tx_expiredAt = None, tx_details = []\<rparr>)"
    by (simp add: transfer_defs scenario_defs)
  have "tx_expiredAt request_transaction = None" by (simp add: request_transaction_def)
  with request accept again reject cancel show ?thesis by simp
qed

lemma promise_all_find_Inr:
  "promise_all (map (\<lambda>i. findContainerById i u s) cs) = Inr containers \<Longrightarrow>
   map fst containers = cs \<and> (\<forall>c \<in> set containers. container_registry s (fst c) = Some (snd c))"
proof (induction cs arbitrary: containers)
  case Nil
  then show ?case by simp
next
  case (Cons i cs)
  then show ?case
    by (auto simp: findContainerById_def split: option.splits sum.splits)
qed

lemma promise_all_find_Inl:
  "promise_all (map (\<lambda>i. findContainerById i u s) cs) = Inl err \<Longrightarrow>
   \<exists>j \<in> set cs. container_registry s j = None \<and> err = NotFound ''Container'' j"
  by (induction cs) (auto simp: findContainerById_def split: option.splits sum.splits)

lemma promise_all_find_total:
  "\<forall>i \<in> set cs. container_registry s i \<noteq> None \<Longrightarrow>
   \<exists>containers. promise_all (map (\<lambda>i. findContainerById i u s) cs) = Inr containers"
  by (induction cs) (auto simp: findContainerById_def split: option.splits sum.splits)

text \<open>
  Claim C4, as amended. When a listed container is not in RECOVERED status,
  \<open>registerTransferRequest\<close> fails and the store is exactly as before: no Transaction is
  persisted and no container status is changed. The failure is a validation error when
  \<open>to\<close> is missing (the missing recipient) and when the recipient and every listed
  container resolve (the container status). When the recipient does not resolve, or
  resolves while a listed container does not, the failure is the not-found error of
  that lookup, which comes before the status check.
\<close>

theorem transfer_request_needs_recovered:
  assumes "i \<in> set containersInput"
    and "container_registry s i = Some c"
    and "c_status c \<noteq> RECOVERED"
  shows "\<exists>err. registerTransferRequest e containersInput to_id user s =
                  (Inl (CouldNotBeRegistered err), s) \<and>
               (to_id = None \<longrightarrow> err = MissingRecipient) \<and>
               ((\<exists>t. to_id = Some t \<and> user_exists e t) \<and>
                (\<forall>j \<in> set containersInput. container_registry s j \<noteq> None)
                  \<longrightarrow> err = ContainersNotRecovered) \<and>
               (\<forall>t. to_id = Some t \<and> \<not> user_exists e t \<longrightarrow> err = NotFound ''User'' t) \<and>
               ((\<exists>t. to_id = Some t \<and> user_exists e t) \<and>
                (\<exists>j \<in> set containersInput. container_registry s j = None)
                  \<longrightarrow> (\<exists>j \<in> set containersInput.
                         container_registry s j = None \<and> err = NotFound ''Container'' j))"
proof (cases to_id)
  case None
  then show ?thesis
    by (simp add: registerTransferRequest_def registerTransferRequest_try_def finish_simps
          catch_no_transaction vars0_simps)
next
  case (Some t)
  show ?thesis
  proof (cases "user_exists e t")
    case False
    with Some show ?thesis
      by (simp add: registerTransferRequest_def registerTransferRequest_try_def finish_simps
            catch_no_transaction vars0_simps findUserById_def)
  next
    case True
    show ?thesis
    proof (cases "promise_all (map (\<lambda>containerId. findContainerById containerId user s) containersInput)")
      case (Inl err)
      have "\<not> (\<forall>j \<in> set containersInput. container_registry s j \<noteq> None)"
      proof
        assume "\<forall>j \<in> set containersInput. container_registry s j \<noteq> None"
        from promise_all_find_total [OF this, of user] Inl show False by simp
      qed
      with Some True Inl promise_all_find_Inl [OF Inl] show ?thesis
        by (auto simp: registerTransferRequest_def registerTransferRequest_try_def finish_simps
              catch_no_transaction vars0_simps findUserById_def)
    next
      case (Inr containers)
      from promise_all_find_Inr [OF Inr]
      have ids: "map fst containers = containersInput"
        and reg: "\<forall>c \<in> set containers. container_registry s (fst c) = Some (snd c)" by auto
      from ids assms(1) obtain x where x: "x \<in> set containers" "fst x = i"
        by (metis (no_types, lifting) imageE list.set_map)
      with reg assms(2) have "snd x = c" by auto
      with x assms(3) have "\<not> list_all (\<lambda>container. c_status (snd container) = RECOVERED) containers"
        by (auto simp: list_all_iff)
      moreover have "\<forall>j \<in> set containersInput. container_registry s j \<noteq> None"
        using ids reg by (metis (no_types, lifting) imageE list.set_map option.distinct(1))
      ultimately show ?thesis using Some True Inr
        by (simp add: registerTransferRequest_def registerTransferRequest_try_def finish_simps
              catch_no_transaction vars0_simps findUserById_def Let_def)
    qed
  qed
qed

theorem transfer_request_needs_recovered_witness:
  "container_registry pending_store 101 = Some (plastic_container TRANSFER_PENDING) \<and>
   registerTransferRequest demo_env [101, 102] (Some 3) 1 pending_store =
     (Inl (CouldNotBeRegistered ContainersNotRecovered), pending_store)"
  using transfer_request_needs_recovered [where i = 101 and containersInput = "[101, 102]"
          and s = pending_store and c = "plastic_container TRANSFER_PENDING" and e = demo_env
          and to_id = "Some 3" and user = 1]
  by (auto simp: pending_store_def plastic_container_def demo_env_def)

text \<open>
  Claim C4 as stated fails: user 1 asks to transfer containers 101 and 102, both
  TRANSFER_PENDING, to a recipient 99 that does not exist. The call fails and changes
  nothing, but with the not-found error of the recipient lookup, which is no validation
  error: the lookup comes before the status check.
\<close>

theorem transfer_request_to_unknown_recipient:
  "container_registry pending_store 101 = Some (plastic_container TRANSFER_PENDING) \<and>
   registerTransferRequest demo_env [101, 102] (Some 99) 1 pending_store =
     (Inl (CouldNotBeRegistered (NotFound ''User'' 99)), pending_store) \<and>
   \<not> validation_error (NotFound ''User'' 99) \<and>
   \<not> validation_error (CouldNotBeRegistered (NotFound ''User'' 99))"
  by (simp add: registerTransferRequest_def registerTransferRequest_try_def findUserById_def
        finish_def vars0_def registerTransferRequest_catch_def pending_store_def demo_env_def)

text \<open>
  Claim C9. \<open>registerRecover\<close> called with the empty list, or without the argument,
  succeeds when the store accepts the new Transaction: it returns a Transaction of type
  RECOVER addressed to the requester, with no details, which is in the ledger; no
  container and no detail is created and no stock counter changes.
\<close>

theorem recover_of_nothing:
  assumes "input = None \<or> input = Some []"
    and "\<forall>t. accepts_transaction e (SessionToken user) t"
  shows "\<exists>t s'. registerRecover e input user s = (Inr t, s') \<and>
           tx_type (snd t) = Some RECOVER \<and> tx_to (snd t) = Some user \<and>
           tx_details (snd t) = [] \<and> transactions s' (fst t) = Some (snd t) \<and>
           container_registry s' = container_registry s \<and> details s' = details s \<and>
           stock s' = stock s"
  using assms
  by (auto simp: registerRecover_def registerRecover_try_def validateRegisterInput_def
        getWasteTypesFromIds_def createTransaction_def getValueForNextSequence_def Let_def
        finish_simps save_transaction_def set_details_def no_attributes_def)

theorem recover_of_nothing_witness:
  "registerRecover demo_env None 1 recovered_store =
     (Inr (103, \<lparr>tx_type = Some RECOVER, tx_from = None, tx_to = Some 1, tx_number = 2,
                 tx_recyclingCenter = None, tx_reason = None, tx_relatedTo = None,
                 tx_expiredAt = None, tx_details = []\<rparr>),
      recovered_store\<lparr>transactions := (transactions recovered_store)(103 \<mapsto>
                 \<lparr>tx_type = Some RECOVER, tx_from = None, tx_to = Some 1, tx_number = 2,
                 tx_recyclingCenter = None, tx_reason = None, tx_relatedTo = None,
                 tx_expiredAt = None, tx_details = []\<rparr>),
              sequences := (sequences recovered_store)(''Transaction'' := 2), next_id := 104\<rparr>)"
  using recover_of_nothing [where input = None and e = demo_env and user = 1 and s = recovered_store]
  by (auto simp: registerRecover_def registerRecover_try_def validateRegisterInput_def
        getWasteTypesFromIds_def createTransaction_def getValueForNextSequence_def Let_def
        finish_simps save_transaction_def set_details_def no_attributes_def demo_env_def recovered_store_def)

lemma getWasteTypesFromIds_resolved:
  "\<forall>i \<in> set ids. waste_types e i \<noteq> None \<Longrightarrow>
   getWasteTypesFromIds e ids =
     Inr (\<lambda>i. if i \<in> set ids then map_option (Pair i) (waste_types e i) else None)"
proof -
  assume "\<forall>i \<in> set ids. waste_types e i \<noteq> None"
  then have "find (\<lambda>i. waste_types e i = None) ids = None"
    by (simp add: find_None_iff)
  then show ?thesis by (simp add: getWasteTypesFromIds_def)
qed

lemma create_containers_frame:
  "create_containers n w st number u s = (cs, s') \<Longrightarrow>
   transactions s' = transactions s \<and> stock s' = stock s \<and> sequences s' = sequences s \<and>
   details s' = details s"
proof (induction n arbitrary: s cs s')
  case 0
  then show ?case by simp
next
  case (Suc n)
  then show ?case
    by (auto simp: Let_def save_container_def split: prod.splits)
qed

lemma recover_createContainers_all:
  "\<forall>item \<in> set items. W (typeId item) \<noteq> None \<Longrightarrow>
   \<exists>css s'. array_map (recover_createContainers W t u) items s = (Inr css, s') \<and>
            transactions s' = transactions s \<and> stock s' = stock s \<and>
            sequences s' = sequences s"
proof (induction items arbitrary: s)
  case Nil
  then show ?case by simp
next
  case (Cons item items)
  from Cons.prems obtain w where w: "W (typeId item) = Some w" by auto
  obtain cs s1 where c: "createContainersOfType w (qty item) RECOVERED (tx_number (snd t)) u s = (cs, s1)"
    by (cases "createContainersOfType w (qty item) RECOVERED (tx_number (snd t)) u s")
  then have f: "transactions s1 = transactions s \<and> stock s1 = stock s \<and> sequences s1 = sequences s"
    using create_containers_frame by (auto simp: createContainersOfType_def)
  from Cons.prems have "\<forall>item \<in> set items. W (typeId item) \<noteq> None" by simp
  from Cons.IH [OF this, of s1] obtain css s' where
    r: "array_map (recover_createContainers W t u) items s1 = (Inr css, s')"
       "transactions s' = transactions s1" "stock s' = stock s1" "sequences s' = sequences s1"
    by blast
  have step: "recover_createContainers W t u item s = (Inr cs, s1)"
    using w c by (simp add: recover_createContainers_def)
  show ?case using step f r by simp
qed

lemma createTransactionDetail_all:
  "\<forall>d. accepts_detail e d \<Longrightarrow>
   \<exists>ds. promise_all (fst (map_all (\<lambda>c. createTransactionDetail e t c u) cs s)) = Inr ds \<and>
        transactions (snd (map_all (\<lambda>c. createTransactionDetail e t c u) cs s)) = transactions s \<and>
        stock (snd (map_all (\<lambda>c. createTransactionDetail e t c u) cs s)) = stock s \<and>
        sequences (snd (map_all (\<lambda>c. createTransactionDetail e t c u) cs s)) = sequences s"
proof (induction cs arbitrary: s)
  case Nil
  then show ?case by simp
next
  case (Cons c cs)
  let ?s1 = "s\<lparr>details := details s @ [\<lparr>d_transaction = fst t, d_qty = wt_qty (snd (c_type (snd c))),
              d_unit = wt_unit (snd (c_type (snd c))), d_container = fst c\<rparr>]\<rparr>"
  from Cons.IH [OF Cons.prems, of ?s1] obtain ds where
    "promise_all (fst (map_all (\<lambda>c. createTransactionDetail e t c u) cs ?s1)) = Inr ds"
    "transactions (snd (map_all (\<lambda>c. createTransactionDetail e t c u) cs ?s1)) = transactions ?s1"
    "stock (snd (map_all (\<lambda>c. createTransactionDetail e t c u) cs ?s1)) = stock ?s1"
    "sequences (snd (map_all (\<lambda>c. createTransactionDetail e t c u) cs ?s1)) = sequences ?s1"
    by blast
  moreover have "createTransactionDetail e t c u s =
      (Inr \<lparr>d_transaction = fst t, d_qty = wt_qty (snd (c_type (snd c))),
              d_unit = wt_unit (snd (c_type (snd c))), d_container = fst c\<rparr>, ?s1)"
    using Cons.prems by (simp add: createTransactionDetail_def Let_def)
  ultimately show ?case
    by (simp add: split_beta)
qed

lemma incrementStock_amount:
  "stock_amount (incrementStock w u q s) u' t =
     (if u' = u \<and> t = fst w then stock_amount s u t + q else stock_amount s u' t)"
  by (simp add: incrementStock_def stock_amount_def)

lemma recover_incrementStock_all:
  "distinct (map typeId items) \<Longrightarrow>
   \<forall>item \<in> set items. \<exists>w. W (typeId item) = Some (typeId item, w) \<Longrightarrow>
   \<exists>rs s'. array_map (recover_incrementStock W u) items s = (Inr rs, s') \<and>
           transactions s' = transactions s \<and> sequences s' = sequences s \<and>
           (\<forall>item \<in> set items.
              stock_amount s' u (typeId item) = stock_amount s u (typeId item) + qty item) \<and>
           (\<forall>t. t \<notin> typeId ` set items \<longrightarrow> stock_amount s' u t = stock_amount s u t)"
proof (induction items arbitrary: s)
  case Nil
  then show ?case by simp
next
  case (Cons item items)
  from Cons.prems obtain w where w: "W (typeId item) = Some (typeId item, w)" by auto
  let ?s1 = "incrementStock (typeId item, w) u (qty item) s"
  from Cons.prems have d: "distinct (map typeId items)" "typeId item \<notin> typeId ` set items"
    and a: "\<forall>item \<in> set items. \<exists>w. W (typeId item) = Some (typeId item, w)" by auto
  from Cons.IH [OF d(1) a, of ?s1] obtain rs s' where
    r: "array_map (recover_incrementStock W u) items ?s1 = (Inr rs, s')"
       "transactions s' = transactions ?s1" "sequences s' = sequences ?s1"
       "\<forall>item \<in> set items. stock_amount s' u (typeId item) = stock_amount ?s1 u (typeId item) + qty item"
       "\<forall>t. t \<notin> typeId ` set items \<longrightarrow> stock_amount s' u t = stock_amount ?s1 u t"
    by blast
  have t1: "transactions ?s1 = transactions s" "sequences ?s1 = sequences s"
    by (simp_all add: incrementStock_def)
  have step: "recover_incrementStock W u item s = (Inr (), ?s1)"
    using w by (simp add: recover_incrementStock_def)
  have run: "array_map (recover_incrementStock W u) (item # items) s = (Inr (() # rs), s')"
    using step r(1) by simp
  have hd: "stock_amount s' u (typeId item) = stock_amount s u (typeId item) + qty item"
    using r(5) d(2) by (simp add: incrementStock_amount)
  have tl: "\<forall>i \<in> set items. stock_amount s' u (typeId i) = stock_amount s u (typeId i) + qty i"
  proof
    fix i assume i: "i \<in> set items"
    with d(2) have "typeId i \<noteq> typeId item" by (metis imageI)
    with r(4) i show "stock_amount s' u (typeId i) = stock_amount s u (typeId i) + qty i"
      by (simp add: incrementStock_amount)
  qed
  have other: "\<forall>t. t \<notin> typeId ` set (item # items) \<longrightarrow> stock_amount s' u t = stock_amount s u t"
    using r(5) by (simp add: incrementStock_amount)
  show ?case using run r(2) r(3) t1 hd tl other by simp
qed

text \<open>
  Claim C7. For a valid recover request (no waste type twice, every quantity within the
  maximum) whose waste types resolve and whose saves the store accepts, \<open>registerRecover\<close>
  returns a Transaction that is in the ledger under a number no other Transaction of the
  ledger has, and the requester's counter of each requested waste type has grown by
  exactly the quantity of its line. The ledger is taken to hold no number beyond the
  current value of the sequence (\<open>ledger_numbered\<close>), which is again so afterwards.
\<close>

theorem recover_number_and_stock:
  assumes valid: "distinct (map typeId items)"
      "\<forall>item \<in> set items. qty item \<le> MAX_CONTAINERS_QUANTITY_PER_REQUEST e"
    and types: "\<forall>item \<in> set items. waste_types e (typeId item) \<noteq> None"
    and accepts: "\<forall>t. accepts_transaction e (SessionToken user) t" "\<forall>d. accepts_detail e d"
    and ledger: "ledger_numbered s"
  shows "\<exists>t s'. registerRecover e (Some items) user s = (Inr t, s') \<and> ledger_numbered s' \<and>
           (\<exists>t'. transactions s' (fst t) = Some t' \<and> tx_number t' = tx_number (snd t)) \<and>
           (\<forall>i t'. i \<noteq> fst t \<and> transactions s' i = Some t' \<longrightarrow> tx_number t' \<noteq> tx_number (snd t)) \<and>
           (\<forall>item \<in> set items.
              stock_amount s' user (typeId item) = stock_amount s user (typeId item) + qty item)"
proof -
  let ?ids = "map typeId items"
  let ?W = "\<lambda>i. if i \<in> set ?ids then map_option (Pair i) (waste_types e i) else None"
  let ?n = "Suc (sequences s ''Transaction'')"
  let ?tx = "\<lparr>tx_type = Some RECOVER, tx_from = None, tx_to = Some user, tx_number = ?n,
              tx_recyclingCenter = None, tx_reason = None, tx_relatedTo = None,
              tx_expiredAt = None, tx_details = []\<rparr>"
  let ?obj = "(next_id s, ?tx)"
  let ?s1 = "s\<lparr>sequences := (sequences s)(''Transaction'' := ?n),
               transactions := (transactions s)(next_id s \<mapsto> ?tx), next_id := Suc (next_id s)\<rparr>"
  have v: "validateRegisterInput (MAX_CONTAINERS_QUANTITY_PER_REQUEST e) items = Inr ()"
    using valid by (simp add: validateRegisterInput_def validateRegisterInput_forEach_ok)
  have g: "getWasteTypesFromIds e ?ids = Inr ?W"
    using types by (intro getWasteTypesFromIds_resolved) simp
  have c: "createTransaction e (no_attributes\<lparr>a_to := Some user, a_type := Some RECOVER\<rparr>)
             (SessionToken user) s = (Inr ?obj, ?s1)"
    using accepts(1)
    by (simp add: createTransaction_def getValueForNextSequence_def Let_def no_attributes_def
          save_transaction_def)
  have W1: "\<forall>item \<in> set items. ?W (typeId item) \<noteq> None" using types by auto
  from recover_createContainers_all [OF W1, of ?obj user ?s1] obtain css s2 where
    k: "array_map (recover_createContainers ?W ?obj user) items ?s1 = (Inr css, s2)"
       "transactions s2 = transactions ?s1" "stock s2 = stock ?s1" "sequences s2 = sequences ?s1"
    by blast
  let ?m = "map_all (\<lambda>container. createTransactionDetail e ?obj container user) (concat css) s2"
  from createTransactionDetail_all [OF accepts(2), of ?obj user "concat css" s2] obtain ds where
    d: "promise_all (fst ?m) = Inr ds" "transactions (snd ?m) = transactions s2"
       "stock (snd ?m) = stock s2" "sequences (snd ?m) = sequences s2"
    by blast
  have W2: "\<forall>item \<in> set items. \<exists>w. ?W (typeId item) = Some (typeId item, w)"
    using types by auto
  from recover_incrementStock_all [OF valid(1) W2, of user "snd ?m"] obtain rs s4 where
    i: "array_map (recover_incrementStock ?W user) items (snd ?m) = (Inr rs, s4)"
       "transactions s4 = transactions (snd ?m)"
       "\<forall>item \<in> set items.
          stock_amount s4 user (typeId item) = stock_amount (snd ?m) user (typeId item) + qty item"
       "sequences s4 = sequences (snd ?m)"
    by blast
  have run: "registerRecover e (Some items) user s = (Inr (set_details ?obj ds), s4)"
    using v g c k(1) d(1) i(1)
    by (simp add: registerRecover_def registerRecover_try_def Let_def split_beta finish_simps)
  have tr: "transactions s4 = (transactions s)(next_id s \<mapsto> ?tx)"
    using i(2) d(2) k(2) by simp
  have st: "\<And>t. stock_amount (snd ?m) user t = stock_amount s user t"
    using d(3) k(3) by (simp add: stock_amount_def)
  have uniq: "\<forall>i t'. i \<noteq> next_id s \<and> transactions s4 i = Some t' \<longrightarrow> tx_number t' \<noteq> ?n"
  proof (intro allI impI)
    fix i t' assume "i \<noteq> next_id s \<and> transactions s4 i = Some t'"
    with tr have "transactions s i = Some t'" by (auto split: if_splits)
    with ledger have "tx_number t' \<le> sequences s ''Transaction''"
      unfolding ledger_numbered_def by blast
    then show "tx_number t' \<noteq> ?n" by simp
  qed
  have sq: "sequences s4 = (sequences s)(''Transaction'' := ?n)"
    using i(4) d(4) k(4) by simp
  have inv: "ledger_numbered s4"
    unfolding ledger_numbered_def
  proof (intro allI impI)
    fix i t' assume a: "transactions s4 i = Some t'"
    show "tx_number t' \<le> sequences s4 ''Transaction''"
    proof (cases "i = next_id s")
      case True
      with a tr have "t' = ?tx" by simp
      then have "tx_number t' = ?n" by simp
      with sq show ?thesis by simp
    next
      case False
      with a tr have "transactions s i = Some t'" by simp
      with ledger have "tx_number t' \<le> sequences s ''Transaction''"
        unfolding ledger_numbered_def by blast
      with sq show ?thesis by simp
    qed
  qed
  show ?thesis
    using run tr uniq i(3) st inv by (simp add: set_details_def)
qed

text \<open>
  The ledger is written by \<open>createTransaction\<close>, by the save of a Transaction that is
  already there and by \<open>destroyTransaction\<close>; each keeps the numbers within the sequence.
\<close>

lemma createTransaction_ledger:
  "ledger_numbered s \<Longrightarrow> createTransaction e a c s = (r, s') \<Longrightarrow>
   ledger_numbered s' \<and> sequences s ''Transaction'' \<le> sequences s' ''Transaction'' \<and>
   (\<forall>t. r = Inr t \<longrightarrow> tx_number (snd t) \<le> sequences s' ''Transaction'')"
  by (auto simp: createTransaction_def getValueForNextSequence_def Let_def save_transaction_def
        ledger_numbered_def le_Suc_eq split: if_splits)

lemma save_transaction_ledger:
  "ledger_numbered s \<Longrightarrow> tx_number (snd t) \<le> sequences s ''Transaction'' \<Longrightarrow>
   ledger_numbered (save_transaction t s) \<and> sequences (save_transaction t s) = sequences s"
  by (auto simp: save_transaction_def ledger_numbered_def)

lemma destroyTransaction_ledger:
  "ledger_numbered s \<Longrightarrow>
   ledger_numbered (destroyTransaction t s) \<and> sequences (destroyTransaction t s) = sequences s"
  by (auto simp: destroyTransaction_def ledger_numbered_def split: option.splits)

lemma createTransaction_frame:
  "createTransaction e a c s = (r, s') \<Longrightarrow>
   container_registry s' = container_registry s \<and> notifications s' = notifications s \<and>
   details s' = details s \<and> stock s' = stock s"
  by (auto simp: createTransaction_def getValueForNextSequence_def Let_def save_transaction_def
        split: if_splits)

lemma createTransaction_Inr:
  "createTransaction e a c s = (Inr t, s') \<Longrightarrow>
   fst t = next_id s \<and> transactions s' = (transactions s)(next_id s \<mapsto> snd t) \<and>
   tx_type (snd t) = a_type a \<and> tx_from (snd t) = a_from a \<and> tx_to (snd t) = a_to a \<and>
   tx_relatedTo (snd t) = None"
  by (auto simp: createTransaction_def getValueForNextSequence_def Let_def save_transaction_def
        split: if_splits)

lemma transport_each_sweep:
  assumes "\<forall>c \<in> set cs. f0 (fst c) = Some (snd c)"
  shows "container_registry (snd (map_all (transport_each e t u) cs s)) =
           (\<lambda>i. if i \<in> fst ` set cs then map_option (c_status_update (\<lambda>_. IN_TRANSIT)) (f0 i)
                else container_registry s i) \<and>
         transactions (snd (map_all (transport_each e t u) cs s)) = transactions s \<and>
         notifications (snd (map_all (transport_each e t u) cs s)) = notifications s"
  using assms
proof (induction cs arbitrary: s)
  case Nil
  then show ?case by simp
next
  case (Cons c cs)
  obtain r s1 where step: "transport_each e t u c s = (r, s1)"
    by (cases "transport_each e t u c s")
  then have s1: "container_registry s1 = (container_registry s)(fst c \<mapsto> (snd c)\<lparr>c_status := IN_TRANSIT\<rparr>)"
      "transactions s1 = transactions s" "notifications s1 = notifications s"
    by (auto simp: transport_each_def set_status_def save_container_def createTransactionDetail_def
          Let_def split: if_splits)
  from Cons.prems have f: "\<forall>c \<in> set cs. f0 (fst c) = Some (snd c)" and c: "f0 (fst c) = Some (snd c)"
    by auto
  have snd_eq: "snd (map_all (transport_each e t u) (c # cs) s) = snd (map_all (transport_each e t u) cs s1)"
    using step by (simp add: split_beta)
  show ?case
    unfolding snd_eq using Cons.IH [OF f, of s1] s1 c
    by (auto simp: fun_eq_iff)
qed

lemma rollback_sweep:
  assumes "\<forall>c \<in> set cs. f0 (fst c) = Some (snd c)"
  shows "container_registry (rollbackContainersToStatus cs st None s) =
           (\<lambda>i. if i \<in> fst ` set cs then map_option (c_status_update (\<lambda>_. st)) (f0 i)
                else container_registry s i) \<and>
         transactions (rollbackContainersToStatus cs st None s) = transactions s"
  using assms
proof (induction cs arbitrary: s)
  case Nil
  then show ?case by simp
next
  case (Cons c cs)
  let ?s1 = "save_container (fst c, (snd c)\<lparr>c_status := st\<rparr>) (save_container (fst c, (snd c)\<lparr>c_status := st\<rparr>) s)"
  have step: "rollbackContainersToStatus (c # cs) st None s = rollbackContainersToStatus cs st None ?s1"
    by (simp add: set_status_def Let_def)
  have s1: "container_registry ?s1 = (container_registry s)(fst c \<mapsto> (snd c)\<lparr>c_status := st\<rparr>)"
      "transactions ?s1 = transactions s"
    by (simp_all add: save_container_def)
  from Cons.prems have f: "\<forall>c \<in> set cs. f0 (fst c) = Some (snd c)" and c: "f0 (fst c) = Some (snd c)"
    by auto
  show ?case
    unfolding step using Cons.IH [OF f, of ?s1] s1 c
    by (auto simp: fun_eq_iff)
qed

lemma registerTransport_try_created:
  assumes "registerTransport_try e cs to_id user s = (r, v, s1)"
    and "v_transaction v = Some t"
  shows "\<exists>containers rc s0 rs s2.
           promise_all (map (\<lambda>i. findContainerById i user s) cs) = Inr containers \<and>
           list_all (\<lambda>c. c_status (snd c) \<in> set [RECOVERED, TRANSFERRED]) containers \<and>
           createTransaction e (no_attributes\<lparr>a_from := Some user, a_type := Some TRANSPORT,
               a_recyclingCenter := Some rc\<rparr>) (SessionToken user) s = (Inr t, s0) \<and>
           v_containers v = containers \<and>
           v_recoveredIds v = map fst (filter (\<lambda>c. c_status (snd c) = RECOVERED) containers) \<and>
           v_transferredIds v = map fst (filter (\<lambda>c. c_status (snd c) = TRANSFERRED) containers) \<and>
           map_all (transport_each e t user) containers s0 = (rs, s2) \<and>
           (case r of
              Inl err \<Rightarrow> s1 = s2
            | Inr t' \<Rightarrow> fst t' = fst t \<and>
                s1 = notifyTransport (fst t) user (transport_usersList containers user) s2)"
  using assms
  by (fastforce simp: registerTransport_try_def Let_def vars0_def set_details_def
      split: option.splits sum.splits if_splits prod.splits)

lemma registerTransport_try_Inr:
  "registerTransport_try e cs to_id user s = (Inr t', v, s1) \<Longrightarrow> \<exists>t. v_transaction v = Some t"
  by (fastforce simp: registerTransport_try_def Let_def vars0_def set_details_def
      split: option.splits sum.splits if_splits prod.splits)

lemma status_unchanged: "c_status c = st \<Longrightarrow> c\<lparr>c_status := st\<rparr> = c"
  by (cases c) simp

text \<open>
  Claim C5. When the \<open>try\<close> block of \<open>registerTransport\<close> fails after its Transaction
  was created, then at the failure the Transaction is in the ledger and every listed
  container, RECOVERED or TRANSFERRED before the call, is IN_TRANSIT; the workflow throws
  the wrapped cause, and after its compensation the container registry is exactly what
  it was before the call (every container is back in its own earlier status), the
  Transaction is gone and no other Transaction was touched.
\<close>

theorem transport_compensation:
  assumes body: "registerTransport_try e cs to_id user s = (Inl err, v, s1)"
    and created: "v_transaction v = Some t"
  shows "registerTransport e cs to_id user s =
           (Inl (CouldNotBeRegistered err), registerTransport_catch v s1) \<and>
         transactions s1 (fst t) = Some (snd t) \<and>
         (\<forall>i \<in> set cs. \<exists>c. container_registry s i = Some c \<and>
              (c_status c = RECOVERED \<or> c_status c = TRANSFERRED) \<and>
              container_registry s1 i = Some (c\<lparr>c_status := IN_TRANSIT\<rparr>)) \<and>
         container_registry (registerTransport_catch v s1) = container_registry s \<and>
         transactions (registerTransport_catch v s1) (fst t) = None \<and>
         (\<forall>i. i \<noteq> fst t \<longrightarrow> transactions (registerTransport_catch v s1) i = transactions s i)"
proof -
  from registerTransport_try_created [OF body created]
  obtain containers rc s0 rs where
    found: "promise_all (map (\<lambda>i. findContainerById i user s) cs) = Inr containers"
    and ok: "list_all (\<lambda>c. c_status (snd c) \<in> set [RECOVERED, TRANSFERRED]) containers"
    and ct: "createTransaction e (no_attributes\<lparr>a_from := Some user, a_type := Some TRANSPORT,
               a_recyclingCenter := Some rc\<rparr>) (SessionToken user) s = (Inr t, s0)"
    and vc: "v_containers v = containers"
    and vr: "v_recoveredIds v = map fst (filter (\<lambda>c. c_status (snd c) = RECOVERED) containers)"
    and vt: "v_transferredIds v = map fst (filter (\<lambda>c. c_status (snd c) = TRANSFERRED) containers)"
    and run: "map_all (transport_each e t user) containers s0 = (rs, s1)"
    by auto
  from promise_all_find_Inr [OF found]
  have ids: "map fst containers = cs"
    and reg: "\<forall>c \<in> set containers. container_registry s (fst c) = Some (snd c)" by auto
  from ids have idset: "fst ` set containers = set cs" by (metis list.set_map)
  from createTransaction_frame [OF ct] have reg0: "container_registry s0 = container_registry s"
    by simp
  from createTransaction_Inr [OF ct] have tid: "fst t = next_id s"
    and tr0: "transactions s0 = (transactions s)(next_id s \<mapsto> snd t)" by auto
  from run have s1: "s1 = snd (map_all (transport_each e t user) containers s0)" by simp
  note sweep = transport_each_sweep [OF reg, of e t user s0, folded s1]
  from sweep have sw1: "container_registry s1 =
           (\<lambda>i. if i \<in> fst ` set containers
                then map_option (c_status_update (\<lambda>_. IN_TRANSIT)) (container_registry s i)
                else container_registry s0 i)"
    by (rule conjunct1)
  have reg1: "container_registry s1 =
           (\<lambda>i. if i \<in> set cs then map_option (c_status_update (\<lambda>_. IN_TRANSIT)) (container_registry s i)
                else container_registry s i)"
    unfolding sw1 reg0 idset ..
  from sweep have tr1: "transactions s1 = transactions s0"
    by simp
  have statuses: "\<forall>c \<in> set containers. c_status (snd c) = RECOVERED \<or> c_status (snd c) = TRANSFERRED"
    using ok by (simp add: list_all_iff)
  let ?rec = "filter (\<lambda>c. fst c \<in> set (v_recoveredIds v)) (v_containers v)"
  let ?tra = "filter (\<lambda>c. fst c \<in> set (v_transferredIds v)) (v_containers v)"
  have same: "\<And>c c'. c \<in> set containers \<Longrightarrow> c' \<in> set containers \<Longrightarrow> fst c = fst c' \<Longrightarrow> snd c = snd c'"
    using reg by (metis option.inject)
  have rec_ids: "(fst c \<in> set (v_recoveredIds v)) = (c_status (snd c) = RECOVERED)"
    if "c \<in> set containers" for c
  proof
    assume "fst c \<in> set (v_recoveredIds v)"
    then obtain c' where c': "c' \<in> set containers" "c_status (snd c') = RECOVERED" "fst c' = fst c"
      unfolding vr by auto
    from same [OF c'(1) that c'(3)] c'(2) show "c_status (snd c) = RECOVERED" by simp
  next
    assume "c_status (snd c) = RECOVERED"
    with that have "c \<in> set (filter (\<lambda>c. c_status (snd c) = RECOVERED) containers)" by simp
    then show "fst c \<in> set (v_recoveredIds v)" unfolding vr by (metis imageI list.set_map)
  qed
  have tra_ids: "(fst c \<in> set (v_transferredIds v)) = (c_status (snd c) = TRANSFERRED)"
    if "c \<in> set containers" for c
  proof
    assume "fst c \<in> set (v_transferredIds v)"
    then obtain c' where c': "c' \<in> set containers" "c_status (snd c') = TRANSFERRED" "fst c' = fst c"
      unfolding vt by auto
    from same [OF c'(1) that c'(3)] c'(2) show "c_status (snd c) = TRANSFERRED" by simp
  next
    assume "c_status (snd c) = TRANSFERRED"
    with that have "c \<in> set (filter (\<lambda>c. c_status (snd c) = TRANSFERRED) containers)" by simp
    then show "fst c \<in> set (v_transferredIds v)" unfolding vt by (metis imageI list.set_map)
  qed
  have rec_reg: "\<forall>c \<in> set ?rec. container_registry s (fst c) = Some (snd c)"
    and tra_reg: "\<forall>c \<in> set ?tra. container_registry s (fst c) = Some (snd c)"
    using reg vc by auto
  let ?d = "destroyTransaction (Some t) s1"
  let ?r1 = "rollbackContainersToStatus ?rec RECOVERED None ?d"
  have catch: "registerTransport_catch v s1 = rollbackContainersToStatus ?tra TRANSFERRED None ?r1"
    using created by (simp add: registerTransport_catch_def Let_def)
  have d: "container_registry ?d = container_registry s1"
      "transactions ?d = (transactions s1)(fst t := None)"
    by (simp_all add: destroyTransaction_def)
  note r1 = rollback_sweep [OF rec_reg, of RECOVERED ?d]
  note r2 = rollback_sweep [OF tra_reg, of TRANSFERRED ?r1]
  have final_tr: "transactions (registerTransport_catch v s1) = (transactions s)(fst t := None)"
    using r1 r2 d tr1 tr0 tid by (simp add: catch)
  have sub: "fst ` set ?rec \<subseteq> set cs" "fst ` set ?tra \<subseteq> set cs"
    unfolding idset [symmetric] vc by (rule image_mono, simp)+
  have final_reg: "container_registry (registerTransport_catch v s1) = container_registry s"
  proof
    fix i
    show "container_registry (registerTransport_catch v s1) i = container_registry s i"
    proof (cases "i \<in> set cs")
      case False
      then have "i \<notin> fst ` set ?rec" "i \<notin> fst ` set ?tra"
        using sub by blast+
      with False show ?thesis using r1 r2 d reg1 by (simp add: catch)
    next
      case True
      then have "i \<in> fst ` set containers" using idset by simp
      then obtain c where c: "c \<in> set containers" "fst c = i"
        by (metis imageE)
      then have ri: "container_registry s i = Some (snd c)" using reg by auto
      from statuses c have "c_status (snd c) = RECOVERED \<or> c_status (snd c) = TRANSFERRED"
        by auto
      then show ?thesis
      proof
        assume st: "c_status (snd c) = RECOVERED"
        then have "c \<in> set ?rec" using c(1) rec_ids [OF c(1)] vc by simp
        then have a: "i \<in> fst ` set ?rec" using c(2) by (metis imageI)
        have b: "i \<notin> fst ` set ?tra"
        proof
          assume "i \<in> fst ` set ?tra"
          then obtain c' where "c' \<in> set ?tra" "fst c' = i" by (metis imageE)
          then have c': "c' \<in> set containers" "fst c' = i" "fst c' \<in> set (v_transferredIds v)"
            using vc by simp_all
          then have "c_status (snd c') = TRANSFERRED" using tra_ids [OF c'(1)] by blast
          moreover have "snd c' = snd c" using same [of c' c] c c' by simp
          ultimately show False using st by simp
        qed
        show ?thesis using a b r1 r2 ri st by (simp add: catch status_unchanged)
      next
        assume st: "c_status (snd c) = TRANSFERRED"
        then have "c \<in> set ?tra" using c(1) tra_ids [OF c(1)] vc by simp
        then have a: "i \<in> fst ` set ?tra" using c(2) by (metis imageI)
        show ?thesis using a r2 ri st by (simp add: catch status_unchanged)
      qed
    qed
  qed
  have flipped: "\<forall>i \<in> set cs. \<exists>c. container_registry s i = Some c \<and>
              (c_status c = RECOVERED \<or> c_status c = TRANSFERRED) \<and>
              container_registry s1 i = Some (c\<lparr>c_status := IN_TRANSIT\<rparr>)"
  proof
    fix i assume "i \<in> set cs"
    then have "i \<in> fst ` set containers" using idset by simp
    then obtain c where c: "c \<in> set containers" "fst c = i" by (metis imageE)
    then have "container_registry s i = Some (snd c)" using reg by auto
    moreover have "c_status (snd c) = RECOVERED \<or> c_status (snd c) = TRANSFERRED"
      using statuses c by auto
    ultimately show "\<exists>c. container_registry s i = Some c \<and>
              (c_status c = RECOVERED \<or> c_status c = TRANSFERRED) \<and>
              container_registry s1 i = Some (c\<lparr>c_status := IN_TRANSIT\<rparr>)"
      using reg1 \<open>i \<in> set cs\<close> by simp
  qed
  have whole: "registerTransport e cs to_id user s =
           (Inl (CouldNotBeRegistered err), registerTransport_catch v s1)"
    by (simp add: registerTransport_def body finish_simps)
  have at_failure: "transactions s1 (fst t) = Some (snd t)"
    using tr1 tr0 tid by simp
  show ?thesis
    using whole at_failure flipped final_reg final_tr by simp
qed

text \<open>
  Claim C6, as amended. After a successful \<open>registerTransport\<close> the notifier has been
  handed one more notice, whose users are the owners (\<open>createdBy\<close>) of the listed
  containers, in order, one entry per container, without the entries equal to the
  requester. As a set these are the owners other than the requester; an owner of several
  of the containers is in the list once per container.
\<close>

theorem transport_notifies_owners:
  assumes "registerTransport e cs to_id user s = (Inr t, s')"
  shows "\<exists>owners. map (\<lambda>i. map_option c_createdBy (container_registry s i)) cs = map Some owners \<and>
           notifications s' =
             notifications s @ [TransportNotice (fst t) user (filter (\<lambda>u. u \<noteq> user) owners)] \<and>
           set (filter (\<lambda>u. u \<noteq> user) owners) = set owners - {user}"
proof -
  from assms obtain v where body: "registerTransport_try e cs to_id user s = (Inr t, v, s')"
    by (auto simp: registerTransport_def finish_def split: prod.splits sum.splits)
  from registerTransport_try_Inr [OF body] obtain t0 where created: "v_transaction v = Some t0" ..
  from registerTransport_try_created [OF body created]
  obtain containers rc s0 rs s2 where
    found: "promise_all (map (\<lambda>i. findContainerById i user s) cs) = Inr containers"
    and ct: "createTransaction e (no_attributes\<lparr>a_from := Some user, a_type := Some TRANSPORT,
               a_recyclingCenter := Some rc\<rparr>) (SessionToken user) s = (Inr t0, s0)"
    and run: "map_all (transport_each e t0 user) containers s0 = (rs, s2)"
    and t: "fst t = fst t0"
    and s': "s' = notifyTransport (fst t0) user (transport_usersList containers user) s2"
    by auto
  from promise_all_find_Inr [OF found]
  have ids: "map fst containers = cs"
    and reg: "\<forall>c \<in> set containers. container_registry s (fst c) = Some (snd c)" by auto
  let ?owners = "map (\<lambda>c. c_createdBy (snd c)) containers"
  have "map (\<lambda>i. map_option c_createdBy (container_registry s i)) (map fst containers) = map Some ?owners"
    using reg by simp
  then have o: "map (\<lambda>i. map_option c_createdBy (container_registry s i)) cs = map Some ?owners"
    using ids by simp
  from run have "s2 = snd (map_all (transport_each e t0 user) containers s0)" by simp
  with transport_each_sweep [OF reg, of e t0 user s0] createTransaction_frame [OF ct]
  have n: "notifications s2 = notifications s" by simp
  have "notifications s' =
          notifications s @ [TransportNotice (fst t) user (filter (\<lambda>u. u \<noteq> user) ?owners)]"
    using s' n t by (simp add: notifyTransport_def transport_usersList_def)
  moreover have "set (filter (\<lambda>u. u \<noteq> user) ?owners) = set ?owners - {user}" by auto
  ultimately show ?thesis using o by blast
qed

text \<open>
  Claim C6 as stated fails: user 3 transports the two containers of user 1, and the list
  handed to the notifier names user 1 twice.
\<close>

theorem transport_notifies_an_owner_twice:
  "fst (registerTransport demo_env [101, 102] (Some 50) 3 recovered_store) =
     Inr (103, transport_transaction\<lparr>tx_details := [plastic_detail 103 101, plastic_detail 103 102]\<rparr>) \<and>
   notifications (snd (registerTransport demo_env [101, 102] (Some 50) 3 recovered_store)) =
     [TransportNotice 103 3 [1, 1]]"
  by (simp add: transport_defs scenario_defs)

theorem transport_notifies_owners_witness:
  "notifications (snd (registerTransport demo_env [101, 102] (Some 50) 3 recovered_store)) =
     notifications recovered_store @ [TransportNotice 103 3 (filter (\<lambda>u. u \<noteq> 3) [1, 1])]"
proof -
  let ?X = "registerTransport demo_env [101, 102] (Some 50) 3 recovered_store"
  let ?t = "(103, transport_transaction\<lparr>tx_details := [plastic_detail 103 101, plastic_detail 103 102]\<rparr>)"
  have "fst ?X = Inr ?t"
    by (simp add: transport_defs scenario_defs)
  then have X: "?X = (Inr ?t, snd ?X)" by (metis prod.collapse)
  from transport_notifies_owners [OF X] obtain owners where
    o: "map (\<lambda>i. map_option c_createdBy (container_registry recovered_store i)) [101, 102] = map Some owners"
    and n: "notifications (snd ?X) =
         notifications recovered_store @ [TransportNotice (fst ?t) 3 (filter (\<lambda>u. u \<noteq> 3) owners)]"
    by blast
  from o have "owners = [1, 1]"
    by (auto simp: scenario_defs)
  with n show ?thesis by simp
qed

theorem transport_compensation_witness:
  "fst (registerTransport rejecting_env [101, 102] (Some 50) 3 recovered_store) =
     Inl (CouldNotBeRegistered (DetailNotSaved SaveRejected)) \<and>
   container_registry (snd (snd (registerTransport_try rejecting_env [101, 102] (Some 50) 3 recovered_store))) 101 =
     Some (plastic_container IN_TRANSIT) \<and>
   transactions (snd (snd (registerTransport_try rejecting_env [101, 102] (Some 50) 3 recovered_store))) 103 =
     Some transport_transaction \<and>
   container_registry (snd (registerTransport rejecting_env [101, 102] (Some 50) 3 recovered_store)) =
     container_registry recovered_store \<and>
   transactions (snd (registerTransport rejecting_env [101, 102] (Some 50) 3 recovered_store)) 103 = None"
proof -
  let ?X = "registerTransport_try rejecting_env [101, 102] (Some 50) 3 recovered_store"
  have "fst ?X = Inl (DetailNotSaved SaveRejected)"
    by (simp add: transport_defs scenario_defs)
  then have X: "?X = (Inl (DetailNotSaved SaveRejected), fst (snd ?X), snd (snd ?X))"
    by (metis prod.collapse)
  have V: "v_transaction (fst (snd ?X)) = Some (103, transport_transaction)"
    by (simp add: transport_defs scenario_defs)
  from transport_compensation [OF X V] show ?thesis
    by (simp add: scenario_defs)
qed

text \<open>
  Claim C2 at a valid invocation: user 2 accepts the pending request 103 of two
  containers. The workflow throws the \<open>TypeError\<close> of the method call on what \<open>moveStock\<close>
  returned; after the compensation both containers are TRANSFER_PENDING (none is
  TRANSFERRED), no TRANSFER_ACCEPT Transaction and no new detail exists, and the one unit
  of stock whose movement had been started for the first container has moved.
\<close>

theorem transfer_accept_throws_type_error:
  "fst (registerTransferAccept demo_env 103 2 pending_store) =
     Inl (CouldNotBeRegistered
           (TypeError ''StockService.moveStock(...).createTransactionDetail is not a function'')) \<and>
   container_registry (snd (registerTransferAccept demo_env 103 2 pending_store)) 101 =
     Some (plastic_container TRANSFER_PENDING) \<and>
   container_registry (snd (registerTransferAccept demo_env 103 2 pending_store)) 102 =
     Some (plastic_container TRANSFER_PENDING) \<and>
   transactions (snd (registerTransferAccept demo_env 103 2 pending_store)) 104 = None \<and>
   details (snd (registerTransferAccept demo_env 103 2 pending_store)) = details pending_store \<and>
   stock_amount (snd (registerTransferAccept demo_env 103 2 pending_store)) 1 10 = 1 \<and>
   stock_amount (snd (registerTransferAccept demo_env 103 2 pending_store)) 2 10 = 1"
  by (simp add: transfer_defs scenario_defs)

text \<open>
  Claim C3 at a valid invocation: user 1 cancels the pending request 103. The
  Transaction returned has no type, no \<open>from\<close> and no \<open>to\<close>; only \<open>relatedTo\<close> is as the
  claim says.
\<close>

theorem transfer_cancel_loses_type_from_to:
  "fst (registerTransferCancel demo_env 103 1 pending_store) =
     Inr (104, \<lparr>tx_type = None, tx_from = None, tx_to = None, tx_number = 3,
                 tx_recyclingCenter = None, tx_reason = None, tx_relatedTo = Some 103,
                 tx_expiredAt = None,
                 tx_details = [plastic_detail 104 101, plastic_detail 104 102]\<rparr>)"
  by (simp add: transfer_defs scenario_defs)

text \<open>
  The two defects hold for every input: \<open>registerTransferAccept\<close> never returns a
  Transaction with a detail (it fails whenever the request has a container), and a
  Transaction returned by \<open>registerTransferCancel\<close> never has a type, a \<open>from\<close> or a \<open>to\<close>.
\<close>

lemma registerTransferAccept_returns_no_detail:
  "registerTransferAccept e i u s = (Inr t, s') \<Longrightarrow> tx_details (snd t) = []"
  by (auto simp: registerTransferAccept_def registerTransferAccept_try_def finish_def Let_def
        set_details_def
      split: sum.splits prod.splits dest!: array_map_transferAccept_each)

lemma registerTransferCancel_returns_no_type:
  "registerTransferCancel e i u s = (Inr t, s') \<Longrightarrow>
   tx_type (snd t) = None \<and> tx_from (snd t) = None \<and> tx_to (snd t) = None \<and>
   tx_relatedTo (snd t) = Some i"
  by (auto simp: registerTransferCancel_def registerTransferCancel_try_def finish_def Let_def
        set_details_def set_relatedTo_def findRawTransaction_def properties_of_user_object_def
        no_attributes_def
      split: sum.splits prod.splits option.splits if_splits dest!: createTransaction_Inr)

theorem recover_number_and_stock_witness:
  "stock_amount recovered_store 1 10 = 2 \<and>
   \<not> isl (fst (registerRecover demo_env (Some [\<lparr>typeId = 10, qty = 2\<rparr>]) 1 recovered_store)) \<and>
   stock_amount (snd (registerRecover demo_env (Some [\<lparr>typeId = 10, qty = 2\<rparr>]) 1 recovered_store)) 1 10 = 4"
proof -
  let ?items = "[\<lparr>typeId = 10, qty = 2\<rparr>]"
  have h1: "distinct (map typeId ?items)" by simp
  have h2: "\<forall>item \<in> set ?items. qty item \<le> MAX_CONTAINERS_QUANTITY_PER_REQUEST demo_env"
    by (simp add: demo_env_def)
  have h3: "\<forall>item \<in> set ?items. waste_types demo_env (typeId item) \<noteq> None"
    by (simp add: demo_env_def)
  have h4: "\<forall>t. accepts_transaction demo_env (SessionToken 1) t" "\<forall>d. accepts_detail demo_env d"
    by (simp_all add: demo_env_def)
  have h5: "ledger_numbered recovered_store"
    by (auto simp: ledger_numbered_def recovered_store_def recover_transaction_def split: if_splits)
  have s0: "stock_amount recovered_store 1 10 = 2"
    by (simp add: recovered_store_def stock_amount_def)
  from recover_number_and_stock [OF h1 h2 h3 h4 h5] s0 show ?thesis
    by auto
qed

end
